theory Spec2Isabelle
  imports Main "HOL-Library.Word" "HOL-Library.Multiset" "HOL-Library.AList"
begin

unbundle bit_operations_syntax

section \<open>Data model\<close>

text \<open>
  The gateway (package \<open>mastergateway\<close>, file \<open>mastergateway.go\<close>) is embedded
  function by function. Byte slices are lists of 8-bit words, a Go \<open>error\<close> is the text
  that \<open>err.Error()\<close> yields, a nil \<open>error\<close> is \<open>None\<close>, and a nil byte slice is
  the empty list (the code only ever takes the length or the content of one).
\<close>

type_synonym byte = "8 word"
type_synonym bytes = "byte list"
type_synonym goerror = string

text \<open>
  \<open>*rsa.PublicKey\<close> and \<open>*rsa.PrivateKey\<close>: modulus and exponent. The gateway never
  looks inside a key; it hands it to the primitives of package \<open>tasking\<close>.
\<close>

type_synonym pubkey = "nat \<times> nat"
type_synonym privkey = "nat \<times> nat"

text \<open>
  Modelled from the spec: the struct types of package \<open>tasking\<close> (imported from
  \<open>../utils\<close>), with the fields that \<open>mastergateway.go\<close> reads and writes and the
  field types of the spec's data model. A \<open>map[string][]string\<close> is an association
  list with distinct keys, so that its length is the number of entries. Where two
  structs have a field of the same name (\<open>Name\<close>, \<open>Tasks\<close>, \<open>Source\<close>), the field
  of the later one carries a prefix: \<open>User_Name\<close>, \<open>Ticket_Tasks\<close>,
  \<open>Result_Source\<close>.
\<close>

record Organization =
  Name :: string
  Uri :: string
  Sources :: "string list"

record User =
  User_Name :: string
  PasswordHash :: string
  Id :: int

record Task =
  PrimaryURI :: string
  SecondaryURI :: string
  Filename :: string
  Tasks :: "(string \<times> string list) list"
  Tags :: "string list"
  Attempts :: int
  Source :: string
  Download :: bool

record Ticket =
  Expiration :: int
  Ticket_Tasks :: "Task list"
  SignerKeyId :: string
  Signature :: bytes

record Encrypted =
  KeyFingerprint :: string
  EncryptedKey :: bytes
  Encrypted :: bytes
  IV :: bytes

text \<open>\<open>tasking.TaskError\<close>; its \<open>Error\<close> field is a \<open>MyError\<close> wrapping one \<open>error\<close>.\<close>

record TaskError =
  TaskStruct :: Task
  Error :: goerror

text \<open>The structs declared in \<open>mastergateway.go\<close> itself.\<close>

record config =
  HTTP :: string
  SourcesKeysPath :: string
  TicketSignKeyPath :: string
  Organizations :: "Organization list"
  OwnOrganization :: string
  StorageURI :: string
  AutoTasks :: "(string \<times> string list) list"
  CertificatePath :: string
  CertificateKeyPath :: string
  AllowedUsers :: "User list"

record storageResult =
  Sha256 :: string
  Sha1 :: string
  Md5 :: string
  Mime :: string
  Result_Source :: "string list"
  Objname :: "string list"
  Submissions :: "string list"

record storageResponse =
  ResponseCode :: int
  Failure :: string
  Result :: storageResult

text \<open>
  A \<open>*tasking.Organization\<close> always points into the slice \<open>conf.Organizations\<close>
  (\<open>&conf.Organizations[num]\<close>), so a pointer is the index of the element it points
  to. Two organizations with equal fields are still two different map keys, as in Go.
\<close>

type_synonym orgptr = nat

text \<open>The package-level variables of \<open>mastergateway.go\<close>.\<close>

record gateway =
  conf :: config
  keys :: "string \<rightharpoonup> pubkey"
  ticketSignKey :: privkey
  ticketSignKeyName :: string
  srcRouter :: "string \<rightharpoonup> orgptr"
  ownOrganization :: orgptr
  users :: "string \<rightharpoonup> User"

text \<open>
  An outbound request of \<open>requestTaskList\<close>: the URI given to \<open>http.NewRequest\<close> and
  the query parameters added to it, in the order of the \<open>q.Add\<close> calls.
\<close>

record request =
  req_uri :: string
  req_query :: "(string \<times> string) list"

text \<open>
  The \<open>*http.Request\<close> and \<open>*http.Response\<close> of the storage proxy. A body is what
  \<open>ioutil.ReadAll\<close> reads from it: the bytes and the error of the read. A request
  or response whose \<open>Body\<close> is nil, on which \<open>ioutil.ReadAll\<close> would panic, has no
  counterpart here: every body is a reader.
\<close>

record proxy_request =
  Header :: "(string \<times> string) list"
  RawQuery :: string
  Body :: "bytes \<times> goerror option"

record proxy_response =
  StatusCode :: int
  resp_Header :: "(string \<times> string) list"
  resp_Body :: "bytes \<times> goerror option"

text \<open>
  What lies outside the process: the bytes \<open>crypto/rand\<close> will deliver, the clock
  (nanoseconds), and the requests issued to partner organizations so far, oldest first.
\<close>

record world =
  entropy :: bytes
  clock :: int
  sent :: "request list"

text \<open>
  The functions the gateway calls and does not define: package \<open>tasking\<close>
  (\<open>RsaEncrypt\<close>, \<open>AesEncrypt\<close>, \<open>AesDecrypt\<close>, \<open>Sign\<close>), \<open>bcrypt\<close>,
  \<open>encoding/json\<close>, \<open>encoding/base64\<close>, \<open>net/http\<close>, \<open>net/url\<close>, \<open>strconv\<close>, and
  the order in which the runtime visits the entries of a map in a \<open>range\<close> statement
  (the language leaves it unspecified). They are parameters of the model. A Go function
  returning \<open>(value, error)\<close> returns a pair here, with \<open>None\<close> for a nil error; a
  \<open>json.Unmarshal\<close> returns the value it left in its target beside its error.
  \<open>clientDo\<close> answers a request given the requests sent before it: the body read from
  the response, and the error of \<open>client.Do\<close>.
\<close>

record extern =
  RsaEncrypt :: "bytes \<Rightarrow> pubkey \<Rightarrow> bytes \<times> goerror option"
  AesEncrypt :: "bytes \<Rightarrow> bytes \<Rightarrow> bytes \<Rightarrow> bytes \<times> goerror option"
  AesDecrypt :: "bytes \<Rightarrow> bytes \<Rightarrow> bytes \<Rightarrow> bytes \<times> goerror option"
  Sign :: "bytes \<Rightarrow> privkey \<Rightarrow> bytes \<times> goerror option"
  CompareHashAndPassword :: "string \<Rightarrow> string \<Rightarrow> goerror option"
  MarshalTicket :: "Ticket \<Rightarrow> bytes \<times> goerror option"
  UnmarshalTasks :: "string \<Rightarrow> Task list \<times> goerror option"
  UnmarshalTaskErrors :: "bytes \<Rightarrow> TaskError list \<times> goerror option"
  UnmarshalStorageResponse :: "bytes \<Rightarrow> storageResponse \<times> goerror option"
  EncodeToString :: "bytes \<Rightarrow> string"
  NewRequest :: "string \<Rightarrow> goerror option"
  clientDo :: "request list \<Rightarrow> request \<Rightarrow> bytes \<times> goerror option"
  mapRange :: "(orgptr \<times> Task list) list \<Rightarrow> (orgptr \<times> Task list) list"
  FormValue :: "proxy_request \<Rightarrow> string \<Rightarrow> string"
  ParseQuery :: "string \<Rightarrow> (string \<times> string list) list"
  Encode :: "(string \<times> string list) list \<Rightarrow> string"
  Itoa :: "int \<Rightarrow> string"
  Transport_RoundTrip :: "proxy_request \<Rightarrow> proxy_response option \<times> goerror option"

text \<open>
  A call either returns, leaving a world behind, or panics: an index out of range, or
  a nil pointer dereferenced.
\<close>

datatype panic = IndexOutOfRange | NilPointerDereference

datatype 'a run = Panics panic | Returns 'a world

section \<open>Start-up\<close>

text \<open>\<open>initUsers\<close> (lines 439-445): a later user of the same name replaces an earlier one.\<close>

fun initUsers_loop :: "User list \<Rightarrow> (string \<rightharpoonup> User) \<Rightarrow> (string \<rightharpoonup> User)" where
  "initUsers_loop [] m = m"
| "initUsers_loop (user # rest) m = initUsers_loop rest (m(User_Name user \<mapsto> user))"

definition initUsers :: "config \<Rightarrow> (string \<rightharpoonup> User)" where
  "initUsers c = initUsers_loop (AllowedUsers c) Map.empty"

text \<open>
  \<open>initSourceRouting\<close> (lines 418-437): every source of every organization is routed to
  that organization, a later organization replacing an earlier one; the result is
  \<open>None\<close> for the \<open>log.Fatal\<close> when the own organization is not in the list.
\<close>

fun initSourceRouting_sources ::
  "orgptr \<Rightarrow> string list \<Rightarrow> (string \<rightharpoonup> orgptr) \<Rightarrow> (string \<rightharpoonup> orgptr)" where
  "initSourceRouting_sources num [] router = router"
| "initSourceRouting_sources num (src # rest) router =
     initSourceRouting_sources num rest (router(src \<mapsto> num))"

fun initSourceRouting_loop ::
  "config \<Rightarrow> orgptr \<Rightarrow> Organization list \<Rightarrow> (string \<rightharpoonup> orgptr) \<times> orgptr option
     \<Rightarrow> (string \<rightharpoonup> orgptr) \<times> orgptr option" where
  "initSourceRouting_loop c num [] st = st"
| "initSourceRouting_loop c num (org # rest) (router, own) =
     initSourceRouting_loop c (Suc num) rest
       (initSourceRouting_sources num (Sources org) router,
        if Name org = OwnOrganization c then Some num else own)"

definition initSourceRouting :: "config \<Rightarrow> ((string \<rightharpoonup> orgptr) \<times> orgptr) option" where
  "initSourceRouting c =
     (case initSourceRouting_loop c 0 (Organizations c) (Map.empty, None) of
        (router, None) \<Rightarrow> None
      | (router, Some own) \<Rightarrow> Some (router, own))"

text \<open>
  \<open>Start\<close> (lines 447-464), after the configuration is decoded and the signing key is
  loaded: the key map starts empty and is filled by the directory watcher.
\<close>

definition Start :: "config \<Rightarrow> privkey \<Rightarrow> string \<Rightarrow> gateway option" where
  "Start c signKey signKeyName =
     (case initSourceRouting c of
        None \<Rightarrow> None
      | Some (router, own) \<Rightarrow>
          Some \<lparr>conf = c, keys = Map.empty, ticketSignKey = signKey,
                ticketSignKeyName = signKeyName, srcRouter = router,
                ownOrganization = own, users = initUsers c\<rparr>)"

section \<open>Tickets and envelopes\<close>

text \<open>\<open>createTicket\<close> (lines 50-62); \<open>3*time.Hour\<close> is in nanoseconds.\<close>

definition createTicket :: "extern \<Rightarrow> gateway \<Rightarrow> world \<Rightarrow> Task list \<Rightarrow> Ticket \<times> goerror option" where
  "createTicket X g w tasks =
     (let t = \<lparr>Expiration = clock w + 3 * 3600000000000, Ticket_Tasks = tasks,
                SignerKeyId = ticketSignKeyName g, Signature = []\<rparr>
      in case MarshalTicket X t of
           (msg, Some err) \<Rightarrow> (t, Some err)
         | (msg, None) \<Rightarrow>
             (case Sign X msg (ticketSignKey g) of
                (sig, err) \<Rightarrow> (t\<lparr>Signature := sig\<rparr>, err)))"

text \<open>\<open>encryptKey\<close> (lines 64-76).\<close>

definition encryptKey :: "extern \<Rightarrow> gateway \<Rightarrow> bytes \<Rightarrow> string \<Rightarrow> bytes \<times> goerror option" where
  "encryptKey X g symKey asymKeyId =
     (case keys g asymKeyId of
        None \<Rightarrow> ([], Some ''Public Key not found'')
      | Some asymKey \<Rightarrow> RsaEncrypt X symKey asymKey)"

text \<open>\<open>encryptTicket\<close> (lines 78-96); it returns \<open>(*tasking.Encrypted, error)\<close>.\<close>

definition encryptTicket ::
  "extern \<Rightarrow> gateway \<Rightarrow> bytes \<Rightarrow> string \<Rightarrow> bytes \<Rightarrow> bytes \<Rightarrow> Encrypted option \<times> goerror option" where
  "encryptTicket X g ticket asymKeyId symKey iv =
     (case encryptKey X g symKey asymKeyId of
        (encKey, Some err) \<Rightarrow> (None, Some err)
      | (encKey, None) \<Rightarrow>
          (case AesEncrypt X ticket symKey iv of
             (encrypted, Some err) \<Rightarrow> (None, Some err)
           | (encrypted, None) \<Rightarrow>
               (Some \<lparr>KeyFingerprint = asymKeyId, EncryptedKey = encKey,
                      Encrypted = encrypted, IV = iv\<rparr>, None)))"

section \<open>Dispatch to one organization\<close>

text \<open>
  \<open>requestTaskList\<close> (lines 98-121). The envelope is passed by pointer and its IV is
  changed in place, so the envelope as the call leaves it is returned with the result.
  \<open>encryptedTicket.IV[0] ^= 1\<close> panics on an empty IV.
\<close>

definition requestTaskList ::
  "extern \<Rightarrow> string \<Rightarrow> Encrypted \<Rightarrow> bytes \<Rightarrow> world \<Rightarrow> ((goerror option \<times> bytes) \<times> Encrypted) run" where
  "requestTaskList X uri encryptedTicket symKey w =
     (case NewRequest X uri of
        Some err \<Rightarrow> Returns ((Some err, []), encryptedTicket) w
      | None \<Rightarrow>
          (let req = \<lparr>req_uri = uri, req_query =
                   [(''KeyFingerprint'', KeyFingerprint encryptedTicket),
                    (''EncryptedKey'', EncodeToString X (EncryptedKey encryptedTicket)),
                    (''IV'', EncodeToString X (IV encryptedTicket)),
                    (''Encrypted'', EncodeToString X (Encrypted encryptedTicket))]\<rparr>;
               w' = w\<lparr>sent := sent w @ [req]\<rparr>
           in case clientDo X (sent w) req of
                (tskerrors, Some err) \<Rightarrow> Returns ((Some err, []), encryptedTicket) w'
              | (tskerrors, None) \<Rightarrow>
                  (case IV encryptedTicket of
                     [] \<Rightarrow> Panics IndexOutOfRange
                   | b # bs \<Rightarrow>
                       (let et = encryptedTicket\<lparr>IV := (b XOR 1) # bs\<rparr>;
                            tskerrorsDec = fst (AesDecrypt X tskerrors symKey (IV et))
                        in Returns ((None, tskerrorsDec), et) w'))))"

text \<open>
  \<open>io.ReadFull(rand.Reader, buf)\<close> on a zeroed buffer of \<open>n\<close> bytes: the buffer is
  filled, or the read fails and the bytes not delivered stay zero. The error is
  \<open>io.EOF\<close> when no byte was read and \<open>io.ErrUnexpectedEOF\<close> when some were.
\<close>

definition ReadFull :: "nat \<Rightarrow> world \<Rightarrow> (bytes \<times> goerror option) \<times> world" where
  "ReadFull n w =
     (if n \<le> length (entropy w)
      then ((take n (entropy w), None), w\<lparr>entropy := drop n (entropy w)\<rparr>)
      else ((entropy w @ replicate (n - length (entropy w)) 0,
             Some (if entropy w = [] then ''EOF'' else ''unexpected EOF'')),
            w\<lparr>entropy := []\<rparr>))"

text \<open>
  \<open>sendTaskList\<close> (lines 205-252). \<open>org.Uri\<close> dereferences the organization and
  \<open>tasks[0]\<close> indexes the task list, both unconditionally. A pointer that is not
  an index of \<open>conf.Organizations\<close> stands for nil, and so does an envelope that
  \<open>encryptTicket\<close> would return as nil with a nil error, which \<open>requestTaskList\<close>
  dereferences.
\<close>

definition sendTaskList ::
  "extern \<Rightarrow> gateway \<Rightarrow> Task list \<Rightarrow> orgptr \<Rightarrow> world \<Rightarrow> (goerror option \<times> bytes) run" where
  "sendTaskList X g tasks org w =
     (if \<not> org < length (Organizations (conf g)) then Panics NilPointerDereference
      else
        (let uri = Uri (Organizations (conf g) ! org) in
         case tasks of
           [] \<Rightarrow> Panics IndexOutOfRange
         | task0 # _ \<Rightarrow>
             (let asymKeyId = Source task0 in
              case ReadFull 16 w of
                ((symKey, Some err), w1) \<Rightarrow> Returns (Some err, []) w1
              | ((symKey, None), w1) \<Rightarrow>
                  (case ReadFull 16 w1 of
                     ((iv, Some err), w2) \<Rightarrow> Returns (Some err, []) w2
                   | ((iv, None), w2) \<Rightarrow>
                       (case createTicket X g w2 tasks of
                          (ticket, Some err) \<Rightarrow> Returns (Some err, []) w2
                        | (ticket, None) \<Rightarrow>
                            (case MarshalTicket X ticket of
                               (ticketM, Some err) \<Rightarrow> Returns (Some err, []) w2
                             | (ticketM, None) \<Rightarrow>
                                 (case encryptTicket X g ticketM asymKeyId symKey iv of
                                    (et, Some err) \<Rightarrow> Returns (Some err, []) w2
                                  | (None, None) \<Rightarrow> Panics NilPointerDereference
                                  | (Some et, None) \<Rightarrow>
                                      (case requestTaskList X uri et symKey w2 of
                                         Panics p \<Rightarrow> Panics p
                                       | Returns (r, et') w3 \<Rightarrow> Returns r w3))))))))"

section \<open>Authentication\<close>

text \<open>
  \<open>authenticate\<close> (lines 123-137): both failures build their error with
  \<open>errors.New("Authentication failed")\<close>.
\<close>

definition authenticate ::
  "extern \<Rightarrow> gateway \<Rightarrow> string \<Rightarrow> string \<Rightarrow> User option \<times> goerror option" where
  "authenticate X g username password =
     (case users g username of
        None \<Rightarrow> (None, Some ''Authentication failed'')
      | Some user \<Rightarrow>
          (case CompareHashAndPassword X (PasswordHash user) password of
             Some err \<Rightarrow> (None, Some ''Authentication failed'')
           | None \<Rightarrow> (Some user, None)))"

text \<open>
  The calls of \<open>bcrypt.CompareHashAndPassword\<close> that \<open>authenticate\<close> makes, each
  with the stored hash and the password it is given: none when the user map has no
  entry for the username, because the return at line 128 comes before the call at line
  130, and one otherwise. The comparison is slow by design, so whether it ran is what
  the time of a failed call shows.
\<close>

definition authenticate_bcrypt_calls :: "gateway \<Rightarrow> string \<Rightarrow> string \<Rightarrow> (string \<times> string) list" where
  "authenticate_bcrypt_calls g username password =
     (case users g username of
        None \<Rightarrow> []
      | Some user \<Rightarrow> [(PasswordHash user, password)])"

section \<open>Task submission\<close>

text \<open>
  The first loop of \<open>handleTask\<close> (lines 156-173). The map \<open>tasklists\<close> is an
  association list with distinct keys; a new key is added at the end, so the list is
  in the order in which the groups were created.
\<close>

fun handleTask_partition ::
  "(string \<rightharpoonup> orgptr) \<Rightarrow> Task list \<Rightarrow> (orgptr \<times> Task list) list \<Rightarrow> TaskError list
     \<Rightarrow> (orgptr \<times> Task list) list \<times> TaskError list" where
  "handleTask_partition router [] tasklists tskerrors = (tasklists, tskerrors)"
| "handleTask_partition router (task # tasks) tasklists tskerrors =
     (case router (Source task) of
        None \<Rightarrow>
          handleTask_partition router tasks tasklists
            (tskerrors @ [\<lparr>TaskStruct = task, Error = ''No route for source!''\<rparr>])
      | Some org \<Rightarrow>
          (case map_of tasklists org of
             None \<Rightarrow> handleTask_partition router tasks (tasklists @ [(org, [task])]) tskerrors
           | Some tasklist \<Rightarrow>
               handleTask_partition router tasks
                 (AList.update org (tasklist @ [task]) tasklists) tskerrors))"

text \<open>
  One iteration of the second loop of \<open>handleTask\<close> (lines 176-199): the errors it
  appends to \<open>tskerrors\<close>. Every branch ends the iteration and goes on to the next
  entry.
\<close>

definition handleTask_group ::
  "extern \<Rightarrow> gateway \<Rightarrow> orgptr \<times> Task list \<Rightarrow> world \<Rightarrow> (TaskError list) run" where
  "handleTask_group X g entry w =
     (case entry of (org, tasklist) \<Rightarrow>
        (case sendTaskList X g tasklist org w of
           Panics p \<Rightarrow> Panics p
         | Returns (Some err, tskOrgErrors) w' \<Rightarrow>
             Returns (map (\<lambda>task. \<lparr>TaskStruct = task,
                                    Error = ''Error while sending task! '' @ err\<rparr>) tasklist) w'
         | Returns (None, tskOrgErrors) w' \<Rightarrow>
             (case UnmarshalTaskErrors X tskOrgErrors of
                (tskOrgErrorsP, Some err) \<Rightarrow>
                  Returns (map (\<lambda>task. \<lparr>TaskStruct = task,
                                         Error = ''Error while parsing result! '' @ err\<rparr>) tasklist) w'
              | (tskOrgErrorsP, None) \<Rightarrow> Returns tskOrgErrorsP w')))"

text \<open>
  The second loop of \<open>handleTask\<close> (lines 175-200), over the entries of \<open>tasklists\<close> in
  the order in which \<open>range\<close> visits them, and the return that follows it.
\<close>

fun handleTask_dispatch ::
  "extern \<Rightarrow> gateway \<Rightarrow> (orgptr \<times> Task list) list \<Rightarrow> TaskError list \<Rightarrow> world
     \<Rightarrow> (goerror option \<times> TaskError list option) run" where
  "handleTask_dispatch X g [] tskerrors w = Returns (None, Some tskerrors) w"
| "handleTask_dispatch X g (entry # rest) tskerrors w =
     (case handleTask_group X g entry w of
        Panics p \<Rightarrow> Panics p
      | Returns errs w' \<Rightarrow> handleTask_dispatch X g rest (tskerrors @ errs) w')"

text \<open>
  \<open>handleTask\<close> (lines 139-203). It returns \<open>(error, []tasking.TaskError)\<close>; the
  slice is nil (\<open>None\<close>) when authentication fails, and the empty slice made at the
  top when the batch does not parse.
\<close>

definition handleTask ::
  "extern \<Rightarrow> gateway \<Rightarrow> string \<Rightarrow> string \<Rightarrow> string \<Rightarrow> world
     \<Rightarrow> (goerror option \<times> TaskError list option) run" where
  "handleTask X g tasksStr username password w =
     (case authenticate X g username password of
        (user, Some err) \<Rightarrow> Returns (Some err, None) w
      | (user, None) \<Rightarrow>
          (case UnmarshalTasks X tasksStr of
             (tasks, Some err) \<Rightarrow> Returns (Some err, Some []) w
           | (tasks, None) \<Rightarrow>
               (case handleTask_partition (srcRouter g) tasks [] [] of
                  (tasklists, tskerrors) \<Rightarrow>
                    handleTask_dispatch X g (mapRange X tasklists) tskerrors w)))"

section \<open>The storage proxy\<close>

text \<open>
  \<open>RoundTrip\<close> (lines 324-399). \<open>form.Set\<close> replaces the values of a key. The result
  of the automatic dispatch is dropped.
\<close>

definition RoundTrip ::
  "extern \<Rightarrow> gateway \<Rightarrow> proxy_request \<Rightarrow> world \<Rightarrow> (proxy_response option \<times> goerror option) run" where
  "RoundTrip X g request w =
     (case Body request of
        (reqbuf, Some err) \<Rightarrow> Returns (None, Some err) w
      | (reqbuf, None) \<Rightarrow>
          (let request1 = request\<lparr>Body := (reqbuf, None)\<rparr>;
               name = FormValue X request1 ''name'';
               source = FormValue X request1 ''source'';
               username = FormValue X request1 ''username'';
               password = FormValue X request1 ''password''
           in case authenticate X g username password of
                (user, Some err) \<Rightarrow> Returns (None, Some err) w
              | (None, None) \<Rightarrow> Panics NilPointerDereference
              | (Some user, None) \<Rightarrow>
                  (let form = AList.update ''user_id'' [Itoa X (Id user)]
                                (ParseQuery X (RawQuery request1));
                       request2 = request1\<lparr>RawQuery := Encode X form\<rparr>
                   in case Transport_RoundTrip X request2 of
                        (response, Some err) \<Rightarrow> Returns (None, Some err) w
                      | (None, None) \<Rightarrow> Panics NilPointerDereference
                      | (Some response, None) \<Rightarrow>
                          (case resp_Body response of
                             (buf, Some err) \<Rightarrow> Returns (None, Some err) w
                           | (buf, None) \<Rightarrow>
                               (let resp = fst (UnmarshalStorageResponse X buf);
                                    response' = response\<lparr>resp_Body := (buf, None)\<rparr>
                                in if ResponseCode resp = 1 \<and> length (AutoTasks (conf g)) \<noteq> 0
                                   then
                                     (let task = \<lparr>PrimaryURI = StorageURI (conf g) @ Sha256 (Result resp),
                                                  SecondaryURI = [],
                                                  Filename = name,
                                                  Tasks = AutoTasks (conf g),
                                                  Tags = [],
                                                  Attempts = 0,
                                                  Source = source,
                                                  Download = True\<rparr>
                                      in case sendTaskList X g [task] (ownOrganization g) w of
                                           Panics p \<Rightarrow> Panics p
                                         | Returns r w' \<Rightarrow> Returns (Some response', None) w')
                                   else Returns (Some response', None) w)))))"

section \<open>A concrete gateway\<close>

text \<open>
  The configuration of \<open>config-master.json.example\<close>: two organizations, the first
  owning the sources \<open>foo\<close> and \<open>bar\<close>, the second \<open>blub\<close>; two users.
\<close>

definition example_conf :: config where
  "example_conf =
     \<lparr>HTTP = '':8090'', SourcesKeysPath = ''keys'', TicketSignKeyPath = ''keys/sign.priv'',
      Organizations =
        [\<lparr>Name = ''Org1'', Uri = ''http://localhost:8080/task/'', Sources = [''foo'', ''bar'']\<rparr>,
         \<lparr>Name = ''Org2'', Uri = ''http://localhost:8081/task/'', Sources = [''blub'']\<rparr>],
      OwnOrganization = ''Org1'', StorageURI = ''http://10.0.4.79:8017/samples/'',
      AutoTasks = [(''PEINFO'', [[]]), (''YARA'', [[]])],
      CertificatePath = ''cert.pem'', CertificateKeyPath = ''cert-key.pem'',
      AllowedUsers =
        [\<lparr>User_Name = ''test'', PasswordHash = ''hash-of-secret'', Id = 0\<rparr>,
         \<lparr>User_Name = ''test2'', PasswordHash = ''hash-of-secret'', Id = 1\<rparr>]\<rparr>"

text \<open>The gateway that \<open>Start\<close> builds from it, with one public key on file, for \<open>foo\<close>.\<close>

definition example_gateway :: gateway where
  "example_gateway =
     \<lparr>conf = example_conf, keys = [''foo'' \<mapsto> (3233, 17)], ticketSignKey = (3233, 413),
      ticketSignKeyName = ''sign'',
      srcRouter = [''foo'' \<mapsto> 0, ''bar'' \<mapsto> 0, ''blub'' \<mapsto> 1],
      ownOrganization = 0,
      users = [''test'' \<mapsto> \<lparr>User_Name = ''test'', PasswordHash = ''hash-of-secret'', Id = 0\<rparr>,
               ''test2'' \<mapsto> \<lparr>User_Name = ''test2'', PasswordHash = ''hash-of-secret'', Id = 1\<rparr>]\<rparr>"

definition example_task :: "string \<Rightarrow> string \<Rightarrow> Task" where
  "example_task file src =
     \<lparr>PrimaryURI = ''http://10.0.4.79:8017/samples/'' @ file, SecondaryURI = [], Filename = file,
      Tasks = [(''PEINFO'', [[]])], Tags = [], Attempts = 0, Source = src, Download = True\<rparr>"

text \<open>
  Stand-ins for the functions the gateway does not define, for running the model on
  concrete inputs: a password matches its hash when the hash is \<open>hash-of-\<close> followed by
  the password, a cipher text is the IV followed by the plain text, the organization at
  port 8080 answers every request with the encrypted JSON text \<open>[]\<close> and no other
  host is reachable, and \<open>range\<close> visits the entries in the order
  of the list.
\<close>

definition example_extern :: extern where
  "example_extern =
     \<lparr>RsaEncrypt = (\<lambda>symKey key. (rev symKey, None)),
      AesEncrypt = (\<lambda>plain key iv. (iv @ plain, None)),
      AesDecrypt = (\<lambda>cipher key iv. (drop (length iv) cipher, None)),
      Sign = (\<lambda>msg key. ([], None)),
      CompareHashAndPassword = (\<lambda>hash pw.
         if hash = ''hash-of-'' @ pw then None
         else Some ''crypto/bcrypt: hashedPassword is not the hash of the given password''),
      MarshalTicket = (\<lambda>t. (map (\<lambda>task. of_nat (length (Source task))) (Ticket_Tasks t), None)),
      UnmarshalTasks = (\<lambda>s.
         if s = ''[foo,blub]'' then ([example_task ''a'' ''foo'', example_task ''c'' ''blub''], None)
         else if s = ''[foo,bar]'' then ([example_task ''a'' ''foo'', example_task ''d'' ''bar''], None)
         else ([], Some ''invalid character'')),
      UnmarshalTaskErrors = (\<lambda>b.
         if b = [91, 93] then ([], None) else ([], Some ''unexpected end of JSON input'')),
      UnmarshalStorageResponse = (\<lambda>b.
         if b = [49] then
           (\<lparr>ResponseCode = 1, Failure = [],
             Result = \<lparr>Sha256 = ''e3b0'', Sha1 = [], Md5 = [], Mime = [], Result_Source = [],
                       Objname = [], Submissions = []\<rparr>\<rparr>, None)
         else
           (\<lparr>ResponseCode = 0, Failure = [],
             Result = \<lparr>Sha256 = [], Sha1 = [], Md5 = [], Mime = [], Result_Source = [],
                       Objname = [], Submissions = []\<rparr>\<rparr>, Some ''unexpected end of JSON input'')),
      EncodeToString = (\<lambda>b. map (\<lambda>x. if x = 0 then CHR ''A'' else CHR ''B'') b),
      NewRequest = (\<lambda>uri. if CHR '' '' \<in> set uri then Some ''invalid character in URL'' else None),
      clientDo = (\<lambda>history req.
         if req_uri req = ''http://localhost:8080/task/'' then (replicate 16 0 @ [91, 93], None)
         else ([], Some ''connection refused'')),
      mapRange = (\<lambda>entries. entries),
      FormValue = (\<lambda>req key. case map_of (Header req) key of None \<Rightarrow> [] | Some v \<Rightarrow> v),
      ParseQuery = (\<lambda>q. []),
      Encode = (\<lambda>form. concat (map (\<lambda>(k, vs). k @ ''='' @ concat vs) form)),
      Itoa = (\<lambda>i. if i = 0 then ''0'' else ''1''),
      Transport_RoundTrip = (\<lambda>req.
         (Some \<lparr>StatusCode = 200, resp_Header = [], resp_Body = ([49], None)\<rparr>, None))\<rparr>"

definition example_world :: world where
  "example_world =
     \<lparr>entropy = [1, 2, 3, 4, 5, 6, 7, 8, 9, 10, 11, 12, 13, 14, 15, 16,
                 17, 18, 19, 20, 21, 22, 23, 24, 25, 26, 27, 28, 29, 30, 31, 32,
                 33, 34, 35, 36, 37, 38, 39, 40, 41, 42, 43, 44, 45, 46, 47, 48,
                 49, 50, 51, 52, 53, 54, 55, 56, 57, 58, 59, 60, 61, 62, 63, 64,
                 65, 66, 67, 68, 69, 70, 71, 72],
      clock = 0, sent = []\<rparr>"

text \<open>An upload of \<open>sample.exe\<close> from the source \<open>foo\<close> by the user \<open>test\<close>.\<close>

definition example_request :: proxy_request where
  "example_request =
     \<lparr>Header = [(''name'', ''sample.exe''), (''source'', ''foo''),
                (''username'', ''test''), (''password'', ''secret'')],
      RawQuery = [], Body = ([], None)\<rparr>"

section \<open>Partition of a batch\<close>

lemma partition_errors:
  "snd (handleTask_partition r tasks tls errs) =
     errs @ map (\<lambda>t. \<lparr>TaskStruct = t, Error = ''No route for source!''\<rparr>)
              (filter (\<lambda>t. r (Source t) = None) tasks)"
  by (induction tasks arbitrary: tls errs) (auto split: option.splits)

lemma partition_groups:
  "map_of (fst (handleTask_partition r tasks tls errs)) org =
     (case map_of tls org of
        None \<Rightarrow> (if filter (\<lambda>t. r (Source t) = Some org) tasks = [] then None
                  else Some (filter (\<lambda>t. r (Source t) = Some org) tasks))
      | Some old \<Rightarrow> Some (old @ filter (\<lambda>t. r (Source t) = Some org) tasks))"
  by (induction tasks arbitrary: tls errs) (auto split: option.splits simp: update_conv')

lemma partition_distinct:
  "distinct (map fst tls) \<Longrightarrow> distinct (map fst (fst (handleTask_partition r tasks tls errs)))"
  by (induction tasks arbitrary: tls errs)
     (auto split: option.splits simp: distinct_update map_of_eq_None_iff)

lemma mset_concat_update:
  "map_of tls k = Some old \<Longrightarrow>
   mset (concat (map snd (AList.update k (old @ [t]) tls))) = add_mset t (mset (concat (map snd tls)))"
  by (induction tls) (auto split: if_splits)

lemma partition_mset:
  "mset (concat (map snd (fst (handleTask_partition r tasks tls errs))))
     + mset (map TaskStruct (snd (handleTask_partition r tasks tls errs)))
   = mset (concat (map snd tls)) + mset (map TaskStruct errs) + mset tasks"
  by (induction tasks arbitrary: tls errs) (auto split: option.splits simp: mset_concat_update)

lemma partition_nonempty:
  assumes "(org, tasklist) \<in> set (fst (handleTask_partition r tasks [] errs))"
  shows "tasklist \<noteq> []"
proof -
  have "distinct (map fst (fst (handleTask_partition r tasks [] errs)))"
    by (rule partition_distinct) simp
  with assms have "map_of (fst (handleTask_partition r tasks [] errs)) org = Some tasklist"
    by simp
  then show ?thesis
    by (simp add: partition_groups split: if_splits)
qed

text \<open>
  C1. The first loop of \<open>handleTask\<close> splits a batch exactly. The per-task errors are
  the tasks whose \<open>Source\<close> has no entry in the routing index, in their order in the
  batch, each with the error "No route for source!". The map has one entry per
  organization, and the group of an organization is the sub-list of the batch's tasks
  whose \<open>Source\<close> the index maps to it (no entry when there is none). As multisets, the
  batch is the tasks of the errors plus the tasks of all groups: no task is lost,
  duplicated or invented.
\<close>

theorem handleTask_partition_exact:
  assumes "handleTask_partition router tasks [] [] = (tasklists, tskerrors)"
  shows "tskerrors = map (\<lambda>t. \<lparr>TaskStruct = t, Error = ''No route for source!''\<rparr>)
                       (filter (\<lambda>t. router (Source t) = None) tasks)
       \<and> distinct (map fst tasklists)
       \<and> (\<forall>org. map_of tasklists org =
             (if filter (\<lambda>t. router (Source t) = Some org) tasks = [] then None
              else Some (filter (\<lambda>t. router (Source t) = Some org) tasks)))
       \<and> mset tasks = mset (map TaskStruct tskerrors) + mset (concat (map snd tasklists))"
proof -
  have e: "tskerrors = snd (handleTask_partition router tasks [] [])"
    and t: "tasklists = fst (handleTask_partition router tasks [] [])"
    using assms by simp_all
  have "distinct (map fst tasklists)"
    unfolding t by (rule partition_distinct) simp
  moreover have "mset tasks = mset (map TaskStruct tskerrors) + mset (concat (map snd tasklists))"
    using partition_mset [of router tasks "[]" "[]", symmetric] unfolding e t
    by (simp add: add.commute)
  moreover have "\<forall>org. map_of tasklists org =
             (if filter (\<lambda>t. router (Source t) = Some org) tasks = [] then None
              else Some (filter (\<lambda>t. router (Source t) = Some org) tasks))"
    unfolding t by (simp add: partition_groups)
  ultimately show ?thesis
    unfolding e by (simp add: partition_errors)
qed

theorem handleTask_partition_exact_witness:
  "handleTask_partition (srcRouter example_gateway)
     [example_task ''a'' ''foo'', example_task ''b'' ''nowhere'',
      example_task ''c'' ''blub'', example_task ''d'' ''bar''] [] []
   = ([(0, [example_task ''a'' ''foo'', example_task ''d'' ''bar'']),
       (1, [example_task ''c'' ''blub''])],
      [\<lparr>TaskStruct = example_task ''b'' ''nowhere'', Error = ''No route for source!''\<rparr>])
   \<and> map_of [(0::nat, [example_task ''a'' ''foo'', example_task ''d'' ''bar'']),
             (1, [example_task ''c'' ''blub''])] 1
     = Some (filter (\<lambda>t. srcRouter example_gateway (Source t) = Some 1)
          [example_task ''a'' ''foo'', example_task ''b'' ''nowhere'',
           example_task ''c'' ''blub'', example_task ''d'' ''bar''])"
proof -
  have h: "handleTask_partition (srcRouter example_gateway)
     [example_task ''a'' ''foo'', example_task ''b'' ''nowhere'',
      example_task ''c'' ''blub'', example_task ''d'' ''bar''] [] []
   = ([(0, [example_task ''a'' ''foo'', example_task ''d'' ''bar'']),
       (1, [example_task ''c'' ''blub''])],
      [\<lparr>TaskStruct = example_task ''b'' ''nowhere'', Error = ''No route for source!''\<rparr>])"
    by (simp add: example_gateway_def example_task_def)
  show ?thesis
    using h handleTask_partition_exact [OF h]
    by (simp add: example_gateway_def example_task_def)
qed

section \<open>Start-up establishes the tables\<close>

lemma initUsers_loop_name:
  "initUsers_loop us m0 name = Some u
     \<Longrightarrow> m0 name = Some u \<or> (User_Name u = name \<and> u \<in> set us)"
  by (induction us m0 rule: initUsers_loop.induct) (auto split: if_splits)

lemma initUsers_name:
  "initUsers c name = Some u \<Longrightarrow> User_Name u = name \<and> u \<in> set (AllowedUsers c)"
  using initUsers_loop_name [of "AllowedUsers c" Map.empty name u] by (simp add: initUsers_def)

lemma example_Start:
  "Start example_conf (3233, 413) ''sign'' = Some (example_gateway\<lparr>keys := Map.empty\<rparr>)"
  by (simp add: Start_def initSourceRouting_def initUsers_def example_conf_def example_gateway_def)

section \<open>Authentication is generic on failure\<close>

text \<open>
  The values \<open>authenticate\<close> returns. It returns a user, with no error, exactly when
  the user map has an entry for the username and \<open>bcrypt.CompareHashAndPassword\<close>
  accepts the password for that entry's stored hash; the user returned is that entry,
  and in a gateway whose user map was built by \<open>initUsers\<close> it is a configured user of
  that name. An unknown username and a known username with a wrong password both return
  no user and the error "Authentication failed", and there is no third result.
\<close>

theorem authenticate_generic:
  "(authenticate X g username password = (Some user, None)
      \<longleftrightarrow> users g username = Some user \<and> CompareHashAndPassword X (PasswordHash user) password = None)
   \<and> (users g username = None
        \<longrightarrow> authenticate X g username password = (None, Some ''Authentication failed''))
   \<and> (users g username = Some user \<and> CompareHashAndPassword X (PasswordHash user) password \<noteq> None
        \<longrightarrow> authenticate X g username password = (None, Some ''Authentication failed''))
   \<and> (authenticate X g username password = (None, Some ''Authentication failed'')
        \<or> (\<exists>u. authenticate X g username password = (Some u, None)))
   \<and> (users g = initUsers (conf g) \<and> authenticate X g username password = (Some user, None)
        \<longrightarrow> User_Name user = username \<and> user \<in> set (AllowedUsers (conf g)))"
  by (auto simp: authenticate_def initUsers_name split: option.splits)

theorem authenticate_generic_witness:
  "authenticate example_extern example_gateway ''test'' ''secret''
     = (Some \<lparr>User_Name = ''test'', PasswordHash = ''hash-of-secret'', Id = 0\<rparr>, None)
   \<and> authenticate example_extern example_gateway ''nobody'' ''secret''
     = (None, Some ''Authentication failed'')
   \<and> authenticate example_extern example_gateway ''test'' ''guess''
     = (None, Some ''Authentication failed'')
   \<and> users example_gateway = initUsers (conf example_gateway)"
  using authenticate_generic [of example_extern example_gateway "''test''" "''secret''"
          "\<lparr>User_Name = ''test'', PasswordHash = ''hash-of-secret'', Id = 0\<rparr>"]
        authenticate_generic [of example_extern example_gateway "''nobody''" "''secret''"]
        authenticate_generic [of example_extern example_gateway "''test''" "''guess''"
          "\<lparr>User_Name = ''test'', PasswordHash = ''hash-of-secret'', Id = 0\<rparr>"]
  by (simp add: example_gateway_def example_extern_def example_conf_def initUsers_def)

lemma authenticate_by_calls:
  "authenticate X g username password =
     (case authenticate_bcrypt_calls g username password of
        [] \<Rightarrow> (None, Some ''Authentication failed'')
      | (hash, pw) # _ \<Rightarrow>
          (case CompareHashAndPassword X hash pw of
             Some err \<Rightarrow> (None, Some ''Authentication failed'')
           | None \<Rightarrow> (users g username, None)))"
  by (simp add: authenticate_def authenticate_bcrypt_calls_def split: option.splits)

lemma authenticate_bcrypt_calls_known:
  "(authenticate_bcrypt_calls g username password = []) = (users g username = None)"
  by (simp add: authenticate_bcrypt_calls_def split: option.splits)

text \<open>
  C3. The two failures return the same value and still differ in what an observer can
  see: for the unknown username \<open>nobody\<close> the hash comparison is never run, for the
  known username \<open>test\<close> with a wrong password it is run once, against the stored hash.
  The code notes the missing dummy comparison itself (line 127).
\<close>

theorem authenticate_reveals_known_username:
  "authenticate example_extern example_gateway ''nobody'' ''guess''
     = (None, Some ''Authentication failed'')
   \<and> authenticate example_extern example_gateway ''test'' ''guess''
     = (None, Some ''Authentication failed'')
   \<and> authenticate_bcrypt_calls example_gateway ''nobody'' ''guess'' = []
   \<and> authenticate_bcrypt_calls example_gateway ''test'' ''guess''
     = [(''hash-of-secret'', ''guess'')]"
  by (simp add: authenticate_def authenticate_bcrypt_calls_def example_extern_def
        example_gateway_def)

section \<open>A failed authentication fails the whole batch\<close>

lemma authenticate_extern_cong:
  "CompareHashAndPassword X' = CompareHashAndPassword X
     \<Longrightarrow> authenticate X' g username password = authenticate X g username password"
  by (simp add: authenticate_def cong: option.case_cong)

text \<open>
  C4. When \<open>authenticate\<close> fails, \<open>handleTask\<close> returns that one error and a nil
  error list, and leaves the world as it found it: no random bytes drawn, no request
  sent. The result is the same whatever the batch text is, whatever the JSON decoder would
  make of it, in whatever order the groups would be visited and whatever the network
  would answer, so nothing of the batch is parsed, partitioned or dispatched.
\<close>

theorem handleTask_auth_failure:
  assumes "authenticate X g username password = (user, Some err)"
  shows "handleTask X g tasksStr username password w = Returns (Some err, None) w
       \<and> handleTask (X\<lparr>UnmarshalTasks := parse, mapRange := order, clientDo := net\<rparr>)
           g tasksStr' username password w = Returns (Some err, None) w
       \<and> user = None \<and> err = ''Authentication failed''"
proof -
  have "authenticate (X\<lparr>UnmarshalTasks := parse, mapRange := order, clientDo := net\<rparr>)
          g username password = (user, Some err)"
    using assms
      authenticate_extern_cong [of "X\<lparr>UnmarshalTasks := parse, mapRange := order, clientDo := net\<rparr>" X]
    by simp
  then have "handleTask (X\<lparr>UnmarshalTasks := parse, mapRange := order, clientDo := net\<rparr>)
           g tasksStr' username password w = Returns (Some err, None) w"
    by (simp add: handleTask_def)
  moreover have "handleTask X g tasksStr username password w = Returns (Some err, None) w"
    using assms by (simp add: handleTask_def)
  moreover have "user = None \<and> err = ''Authentication failed''"
    using assms by (auto simp: authenticate_def split: option.splits)
  ultimately show ?thesis by simp
qed

theorem handleTask_auth_failure_witness:
  "authenticate example_extern example_gateway ''test'' ''guess'' = (None, Some ''Authentication failed'')
   \<and> handleTask example_extern example_gateway ''[foo,blub]'' ''test'' ''guess'' example_world
       = Returns (Some ''Authentication failed'', None) example_world"
proof -
  have h: "authenticate example_extern example_gateway ''test'' ''guess''
             = (None, Some ''Authentication failed'')"
    by (simp add: authenticate_def example_gateway_def example_extern_def)
  show ?thesis
    using h handleTask_auth_failure [OF h, of "''[foo,blub]''" example_world]
    by simp
qed

section \<open>The envelope\<close>

text \<open>
  C6, as amended. \<open>encryptTicket\<close> returns an error exactly when it returns no envelope.
  It does so when the fingerprint is not in the key map, with the error
  "Public Key not found", and also when the key is on file and wrapping the session
  key or encrypting the ticket fails, with that step's error; in no other case. When the
  key is on file and both steps succeed it returns the envelope with the given
  fingerprint, the session key wrapped with that public key, the ticket encrypted under
  the session key and IV, and the given IV.
\<close>

theorem encryptTicket_result:
  "(keys g asymKeyId = None
      \<longrightarrow> encryptTicket X g ticket asymKeyId symKey iv = (None, Some ''Public Key not found''))
   \<and> (keys g asymKeyId = Some asymKey \<and> RsaEncrypt X symKey asymKey = (encKey, Some err)
        \<longrightarrow> encryptTicket X g ticket asymKeyId symKey iv = (None, Some err))
   \<and> (keys g asymKeyId = Some asymKey \<and> RsaEncrypt X symKey asymKey = (encKey, None)
        \<and> AesEncrypt X ticket symKey iv = (encrypted, Some err)
        \<longrightarrow> encryptTicket X g ticket asymKeyId symKey iv = (None, Some err))
   \<and> (keys g asymKeyId = Some asymKey \<and> RsaEncrypt X symKey asymKey = (encKey, None)
        \<and> AesEncrypt X ticket symKey iv = (encrypted, None)
        \<longrightarrow> encryptTicket X g ticket asymKeyId symKey iv
              = (Some \<lparr>KeyFingerprint = asymKeyId, EncryptedKey = encKey,
                       Encrypted = encrypted, IV = iv\<rparr>, None))
   \<and> (fst (encryptTicket X g ticket asymKeyId symKey iv) = None
        \<longleftrightarrow> snd (encryptTicket X g ticket asymKeyId symKey iv) \<noteq> None)
   \<and> (snd (encryptTicket X g ticket asymKeyId symKey iv) \<noteq> None
        \<longleftrightarrow> (case keys g asymKeyId of
               None \<Rightarrow> True
             | Some asymKey \<Rightarrow> snd (RsaEncrypt X symKey asymKey) \<noteq> None
                               \<or> snd (AesEncrypt X ticket symKey iv) \<noteq> None))"
  by (auto simp: encryptTicket_def encryptKey_def split: option.splits prod.splits)

theorem encryptTicket_result_witness:
  "encryptTicket example_extern example_gateway [1, 2, 3] ''bar'' [4, 5] [6, 7]
     = (None, Some ''Public Key not found'')
   \<and> encryptTicket example_extern example_gateway [1, 2, 3] ''foo'' [4, 5] [6, 7]
     = (Some \<lparr>KeyFingerprint = ''foo'', EncryptedKey = [5, 4],
              Encrypted = [6, 7, 1, 2, 3], IV = [6, 7]\<rparr>, None)
   \<and> encryptTicket
       (example_extern\<lparr>AesEncrypt :=
          \<lambda>plain key iv. ([], Some ''crypto/aes: invalid key size 2'')\<rparr>)
       example_gateway [1, 2, 3] ''foo'' [4, 5] [6, 7]
     = (None, Some ''crypto/aes: invalid key size 2'')"
  using encryptTicket_result [where g = example_gateway and asymKeyId = "''bar''"
           and X = example_extern and ticket = "[1, 2, 3]" and symKey = "[4, 5]" and iv = "[6, 7]"]
        encryptTicket_result [where g = example_gateway and asymKeyId = "''foo''"
           and X = example_extern and ticket = "[1, 2, 3]" and symKey = "[4, 5]" and iv = "[6, 7]"
           and asymKey = "(3233, 17)" and encKey = "[5, 4]" and encrypted = "[6, 7, 1, 2, 3]"]
        encryptTicket_result [where g = example_gateway and asymKeyId = "''foo''"
           and X = "example_extern\<lparr>AesEncrypt :=
              \<lambda>plain key iv. ([], Some ''crypto/aes: invalid key size 2'')\<rparr>"
           and ticket = "[1, 2, 3]" and symKey = "[4, 5]" and iv = "[6, 7]"
           and asymKey = "(3233, 17)" and encKey = "[5, 4]" and encrypted = "[]"
           and err = "''crypto/aes: invalid key size 2''"]
  by (simp add: example_gateway_def example_extern_def)

text \<open>
  C6 as stated fails: the fingerprint \<open>foo\<close> is on file, the session key of 16 bytes
  does not fit the key's modulus, \<open>RsaEncrypt\<close> reports it, and \<open>encryptTicket\<close>
  returns that error and no envelope.
\<close>

theorem encryptTicket_error_with_key_on_file:
  "keys example_gateway ''foo'' = Some (3233, 17)
   \<and> encryptTicket
       (example_extern\<lparr>RsaEncrypt :=
          \<lambda>symKey key. ([], Some ''crypto/rsa: message too long for RSA public key size'')\<rparr>)
       example_gateway [1, 2, 3] ''foo'' (replicate 16 7) (replicate 16 9)
     = (None, Some ''crypto/rsa: message too long for RSA public key size'')"
  by (simp add: encryptTicket_def encryptKey_def example_gateway_def example_extern_def)

section \<open>What one dispatch sends and how it decrypts the answer\<close>

lemma ReadFull_ok:
  "ReadFull n w = ((bs, None), w') \<Longrightarrow>
     bs = take n (entropy w) \<and> length bs = n \<and> n \<le> length (entropy w)
     \<and> w' = w\<lparr>entropy := drop n (entropy w)\<rparr>"
  by (auto simp: ReadFull_def split: if_splits)

lemma ReadFull_sent: "ReadFull n w = (r, w') \<Longrightarrow> sent w' = sent w"
  by (auto simp: ReadFull_def split: if_splits)

lemma encryptTicket_Some:
  "encryptTicket X g ticket asymKeyId symKey iv = (Some et, err) \<Longrightarrow>
     err = None \<and> (\<exists>asymKey. keys g asymKeyId = Some asymKey
        \<and> snd (RsaEncrypt X symKey asymKey) = None
        \<and> snd (AesEncrypt X ticket symKey iv) = None
        \<and> et = \<lparr>KeyFingerprint = asymKeyId, EncryptedKey = fst (RsaEncrypt X symKey asymKey),
                 Encrypted = fst (AesEncrypt X ticket symKey iv), IV = iv\<rparr>)"
  by (auto simp: encryptTicket_def encryptKey_def split: option.splits prod.splits)

lemma encryptTicket_never_nil_nil:
  "encryptTicket X g ticket asymKeyId symKey iv \<noteq> (None, None)"
  by (auto simp: encryptTicket_def encryptKey_def split: option.splits prod.splits)

lemma requestTaskList_cases:
  assumes "requestTaskList X uri et symKey w = Returns ((err, out), et') w'"
  shows "(err \<noteq> None \<and> out = [] \<and> et' = et \<and> NewRequest X uri \<noteq> None \<and> w' = w)
       \<or> (NewRequest X uri = None
           \<and> w' = w\<lparr>sent := sent w @ [\<lparr>req_uri = uri, req_query =
                   [(''KeyFingerprint'', KeyFingerprint et),
                    (''EncryptedKey'', EncodeToString X (EncryptedKey et)),
                    (''IV'', EncodeToString X (IV et)),
                    (''Encrypted'', EncodeToString X (Encrypted et))]\<rparr>]\<rparr>
           \<and> ((err \<noteq> None \<and> out = [] \<and> et' = et)
              \<or> (\<exists>body b bs. err = None \<and> IV et = b # bs
                    \<and> clientDo X (sent w) \<lparr>req_uri = uri, req_query =
                   [(''KeyFingerprint'', KeyFingerprint et),
                    (''EncryptedKey'', EncodeToString X (EncryptedKey et)),
                    (''IV'', EncodeToString X (IV et)),
                    (''Encrypted'', EncodeToString X (Encrypted et))]\<rparr> = (body, None)
                    \<and> et' = et\<lparr>IV := (b XOR 1) # bs\<rparr>
                    \<and> out = fst (AesDecrypt X body symKey ((b XOR 1) # bs)))))"
  using assms
  by (auto simp: requestTaskList_def Let_def split: option.splits prod.splits list.splits)

lemma requestTaskList_no_panic:
  "IV et \<noteq> [] \<Longrightarrow> requestTaskList X uri et symKey w \<noteq> Panics p"
  by (auto simp: requestTaskList_def Let_def split: option.splits prod.splits list.splits)

lemma sendTaskList_cases:
  assumes "sendTaskList X g tasks org w = Returns (err, out) w'"
  shows "org < length (Organizations (conf g)) \<and> tasks \<noteq> []
       \<and> ((err \<noteq> None \<and> out = [] \<and> sent w' = sent w)
          \<or> (\<exists>ticket ticketM et et'.
                32 \<le> length (entropy w)
              \<and> createTicket X g (w\<lparr>entropy := drop 32 (entropy w)\<rparr>) tasks = (ticket, None)
              \<and> MarshalTicket X ticket = (ticketM, None)
              \<and> encryptTicket X g ticketM (Source (hd tasks)) (take 16 (entropy w))
                   (take 16 (drop 16 (entropy w))) = (Some et, None)
              \<and> requestTaskList X (Uri (Organizations (conf g) ! org)) et (take 16 (entropy w))
                   (w\<lparr>entropy := drop 32 (entropy w)\<rparr>) = Returns ((err, out), et') w'))"
proof -
  from assms have org: "org < length (Organizations (conf g))"
    by (auto simp: sendTaskList_def split: if_splits)
  from assms org obtain task0 rest where tasks: "tasks = task0 # rest"
    by (cases tasks) (auto simp: sendTaskList_def)
  obtain symKey e1 w1 where r1: "ReadFull 16 w = ((symKey, e1), w1)"
    by (metis prod.exhaust)
  obtain iv e2 w2 where r2: "ReadFull 16 w1 = ((iv, e2), w2)"
    by (metis prod.exhaust)
  show ?thesis
  proof (cases e1)
    case (Some e)
    with assms org tasks r1 ReadFull_sent [OF r1] show ?thesis
      by (auto simp: sendTaskList_def)
  next
    case None
    note e1 = this
    from ReadFull_ok [OF r1 [unfolded e1]]
    have k: "symKey = take 16 (entropy w)" "16 \<le> length (entropy w)"
      "w1 = w\<lparr>entropy := drop 16 (entropy w)\<rparr>" by simp_all
    show ?thesis
    proof (cases e2)
      case (Some e)
      with assms org tasks r1 r2 e1 ReadFull_sent [OF r1] ReadFull_sent [OF r2] show ?thesis
        by (auto simp: sendTaskList_def)
    next
      case None
      note e2 = this
      from ReadFull_ok [OF r2 [unfolded e2]] k
      have i: "iv = take 16 (drop 16 (entropy w))" "32 \<le> length (entropy w)"
        "w2 = w\<lparr>entropy := drop 32 (entropy w)\<rparr>" by auto
      have s2: "sent w2 = sent w" using i by simp
      from assms org tasks r1 r2 e1 e2 s2 i(2) show ?thesis
        unfolding k(1) [symmetric] i(1) [symmetric] i(3) [symmetric]
        by (auto simp: sendTaskList_def encryptTicket_never_nil_nil
                 split: prod.splits option.splits run.splits)
    qed
  qed
qed


lemma flip_bit0:
  fixes b :: byte
  shows "bit (b XOR 1) n = (bit b n \<noteq> (n = 0))"
  by (auto simp: bit_xor_iff bit_1_iff)

lemma ReadFull_enough:
  "n \<le> length (entropy w) \<Longrightarrow>
     ReadFull n w = ((take n (entropy w), None), w\<lparr>entropy := drop n (entropy w)\<rparr>)"
  by (simp add: ReadFull_def)

lemma sendTaskList_answer:
  assumes org: "org < length (Organizations (conf g))"
      and tasks: "tasks \<noteq> []"
      and len: "32 \<le> length (entropy w)"
      and ct: "createTicket X g (w\<lparr>entropy := drop 32 (entropy w)\<rparr>) tasks = (ticket, None)"
      and mt: "MarshalTicket X ticket = (ticketM, None)"
      and key: "keys g (Source (hd tasks)) = Some asymKey"
      and rsa: "RsaEncrypt X (take 16 (entropy w)) asymKey = (encKey, None)"
      and aes: "AesEncrypt X ticketM (take 16 (entropy w)) (take 16 (drop 16 (entropy w)))
                  = (encrypted, None)"
      and nr: "NewRequest X (Uri (Organizations (conf g) ! org)) = None"
      and net: "clientDo X (sent w)
                  \<lparr>req_uri = Uri (Organizations (conf g) ! org), req_query =
                     [(''KeyFingerprint'', Source (hd tasks)),
                      (''EncryptedKey'', EncodeToString X encKey),
                      (''IV'', EncodeToString X (take 16 (drop 16 (entropy w)))),
                      (''Encrypted'', EncodeToString X encrypted)]\<rparr> = (tskerrors, None)"
  shows "sendTaskList X g tasks org w =
           Returns (None, fst (AesDecrypt X tskerrors (take 16 (entropy w))
                                 ((take 16 (drop 16 (entropy w)) ! 0 XOR 1)
                                   # drop 1 (take 16 (drop 16 (entropy w))))))
             (w\<lparr>entropy := drop 32 (entropy w),
                sent := sent w @
                  [\<lparr>req_uri = Uri (Organizations (conf g) ! org), req_query =
                     [(''KeyFingerprint'', Source (hd tasks)),
                      (''EncryptedKey'', EncodeToString X encKey),
                      (''IV'', EncodeToString X (take 16 (drop 16 (entropy w)))),
                      (''Encrypted'', EncodeToString X encrypted)]\<rparr>]\<rparr>)"
proof -
  obtain task0 rest where t: "tasks = task0 # rest"
    using tasks by (cases tasks) auto
  have r1: "ReadFull 16 w = ((take 16 (entropy w), None), w\<lparr>entropy := drop 16 (entropy w)\<rparr>)"
    using len by (simp add: ReadFull_enough)
  have r2: "ReadFull 16 (w\<lparr>entropy := drop 16 (entropy w)\<rparr>)
              = ((take 16 (drop 16 (entropy w)), None), w\<lparr>entropy := drop 32 (entropy w)\<rparr>)"
    using len by (simp add: ReadFull_enough)
  have "length (take 16 (drop 16 (entropy w))) = 16"
    using len by simp
  then obtain b bs where iv: "take 16 (drop 16 (entropy w)) = b # bs"
    by (cases "take 16 (drop 16 (entropy w))") auto
  have et: "encryptTicket X g ticketM (Source task0) (take 16 (entropy w)) (b # bs)
              = (Some \<lparr>KeyFingerprint = Source task0, EncryptedKey = encKey,
                       Encrypted = encrypted, IV = b # bs\<rparr>, None)"
    using key rsa aes by (simp add: encryptTicket_def encryptKey_def t iv)
  have rq: "requestTaskList X (Uri (Organizations (conf g) ! org))
              \<lparr>KeyFingerprint = Source task0, EncryptedKey = encKey,
                Encrypted = encrypted, IV = b # bs\<rparr> (take 16 (entropy w))
              (w\<lparr>entropy := drop 32 (entropy w)\<rparr>)
            = Returns ((None, fst (AesDecrypt X tskerrors (take 16 (entropy w)) ((b XOR 1) # bs))),
                       \<lparr>KeyFingerprint = Source task0, EncryptedKey = encKey,
                         Encrypted = encrypted, IV = (b XOR 1) # bs\<rparr>)
                (w\<lparr>entropy := drop 32 (entropy w),
                   sent := sent w @
                     [\<lparr>req_uri = Uri (Organizations (conf g) ! org), req_query =
                        [(''KeyFingerprint'', Source task0),
                         (''EncryptedKey'', EncodeToString X encKey),
                         (''IV'', EncodeToString X (b # bs)),
                         (''Encrypted'', EncodeToString X encrypted)]\<rparr>]\<rparr>)"
    using nr net by (simp add: requestTaskList_def t iv)
  show ?thesis
    using org ct mt
    by (simp add: sendTaskList_def t r1 r2 et rq iv)
qed

text \<open>
  C2. \<open>sendTaskList\<close> returns a decrypted answer exactly when the organization is
  there, the list has a task, 32 random bytes are to be had, the ticket is created,
  serialized and encrypted, the request is built and the organization answers; and then
  what it returns is the answer decrypted by \<open>AesDecrypt\<close> under the session key the
  ticket was encrypted under (the first 16 random bytes) and under the IV of the
  request (the next 16 random bytes, sent as the \<open>IV\<close> parameter) with its first byte
  XOR 1. That IV has the length of the request's, differs from it, has bit 0 of byte 0
  inverted and every other bit of byte 0 and every other byte as it was.
\<close>

theorem sendTaskList_response_IV:
  "let symKey = take 16 (entropy w);
       iv = take 16 (drop 16 (entropy w));
       iv' = (iv ! 0 XOR 1) # drop 1 iv
   in (sendTaskList X g tasks org w = Returns (None, tskerrorsDec) w'
        \<longleftrightarrow> (\<exists>ticket ticketM asymKey encKey encrypted tskerrors.
              org < length (Organizations (conf g)) \<and> tasks \<noteq> []
            \<and> 32 \<le> length (entropy w)
            \<and> createTicket X g (w\<lparr>entropy := drop 32 (entropy w)\<rparr>) tasks = (ticket, None)
            \<and> MarshalTicket X ticket = (ticketM, None)
            \<and> keys g (Source (hd tasks)) = Some asymKey
            \<and> RsaEncrypt X symKey asymKey = (encKey, None)
            \<and> AesEncrypt X ticketM symKey iv = (encrypted, None)
            \<and> NewRequest X (Uri (Organizations (conf g) ! org)) = None
            \<and> clientDo X (sent w)
                  \<lparr>req_uri = Uri (Organizations (conf g) ! org), req_query =
                     [(''KeyFingerprint'', Source (hd tasks)),
                      (''EncryptedKey'', EncodeToString X encKey),
                      (''IV'', EncodeToString X iv),
                      (''Encrypted'', EncodeToString X encrypted)]\<rparr> = (tskerrors, None)
            \<and> tskerrorsDec = fst (AesDecrypt X tskerrors symKey iv')
            \<and> w' = w\<lparr>entropy := drop 32 (entropy w),
                      sent := sent w @
                  [\<lparr>req_uri = Uri (Organizations (conf g) ! org), req_query =
                     [(''KeyFingerprint'', Source (hd tasks)),
                      (''EncryptedKey'', EncodeToString X encKey),
                      (''IV'', EncodeToString X iv),
                      (''Encrypted'', EncodeToString X encrypted)]\<rparr>]\<rparr>))
      \<and> (32 \<le> length (entropy w)
           \<longrightarrow> length iv = 16 \<and> length iv' = length iv \<and> iv' \<noteq> iv
             \<and> (\<forall>n. bit (iv' ! 0) n = (bit (iv ! 0) n \<noteq> (n = 0)))
             \<and> drop 1 iv' = drop 1 iv)"
proof -
  define symKey where "symKey = take 16 (entropy w)"
  define iv where "iv = take 16 (drop 16 (entropy w))"
  define iv' where "iv' = (iv ! 0 XOR 1) # drop 1 iv"
  let ?cond = "\<lambda>ticket ticketM asymKey encKey encrypted tskerrors.
              org < length (Organizations (conf g)) \<and> tasks \<noteq> []
            \<and> 32 \<le> length (entropy w)
            \<and> createTicket X g (w\<lparr>entropy := drop 32 (entropy w)\<rparr>) tasks = (ticket, None)
            \<and> MarshalTicket X ticket = (ticketM, None)
            \<and> keys g (Source (hd tasks)) = Some asymKey
            \<and> RsaEncrypt X symKey asymKey = (encKey, None)
            \<and> AesEncrypt X ticketM symKey iv = (encrypted, None)
            \<and> NewRequest X (Uri (Organizations (conf g) ! org)) = None
            \<and> clientDo X (sent w)
                  \<lparr>req_uri = Uri (Organizations (conf g) ! org), req_query =
                     [(''KeyFingerprint'', Source (hd tasks)),
                      (''EncryptedKey'', EncodeToString X encKey),
                      (''IV'', EncodeToString X iv),
                      (''Encrypted'', EncodeToString X encrypted)]\<rparr> = (tskerrors, None)
            \<and> tskerrorsDec = fst (AesDecrypt X tskerrors symKey iv')
            \<and> w' = w\<lparr>entropy := drop 32 (entropy w),
                      sent := sent w @
                  [\<lparr>req_uri = Uri (Organizations (conf g) ! org), req_query =
                     [(''KeyFingerprint'', Source (hd tasks)),
                      (''EncryptedKey'', EncodeToString X encKey),
                      (''IV'', EncodeToString X iv),
                      (''Encrypted'', EncodeToString X encrypted)]\<rparr>]\<rparr>"
  have bits: "length iv = 16 \<and> length iv' = length iv \<and> iv' \<noteq> iv
             \<and> (\<forall>n. bit (iv' ! 0) n = (bit (iv ! 0) n \<noteq> (n = 0)))
             \<and> drop 1 iv' = drop 1 iv"
    if len: "32 \<le> length (entropy w)"
  proof -
    have l: "length iv = 16" using len by (simp add: iv_def)
    then obtain b bs where i: "iv = b # bs" by (cases iv) auto
    have "bit (b XOR 1) 0 \<noteq> bit b 0" by (simp add: flip_bit0)
    then have "b XOR 1 \<noteq> b" by metis
    with l show ?thesis
      by (simp add: iv'_def i flip_bit0)
  qed
  have fwd: "\<exists>ticket ticketM asymKey encKey encrypted tskerrors.
               ?cond ticket ticketM asymKey encKey encrypted tskerrors"
    if run: "sendTaskList X g tasks org w = Returns (None, tskerrorsDec) w'"
  proof -
    from sendTaskList_cases [OF run] obtain ticket ticketM et et' where
          o: "org < length (Organizations (conf g))" "tasks \<noteq> []"
      and len: "32 \<le> length (entropy w)"
      and ct: "createTicket X g (w\<lparr>entropy := drop 32 (entropy w)\<rparr>) tasks = (ticket, None)"
      and mt: "MarshalTicket X ticket = (ticketM, None)"
      and enc: "encryptTicket X g ticketM (Source (hd tasks)) symKey iv = (Some et, None)"
      and req: "requestTaskList X (Uri (Organizations (conf g) ! org)) et symKey
                  (w\<lparr>entropy := drop 32 (entropy w)\<rparr>) = Returns ((None, tskerrorsDec), et') w'"
      unfolding symKey_def iv_def by auto
    from encryptTicket_Some [OF enc] obtain asymKey where
          k: "keys g (Source (hd tasks)) = Some asymKey"
      and r: "snd (RsaEncrypt X symKey asymKey) = None"
      and a: "snd (AesEncrypt X ticketM symKey iv) = None"
      and et: "et = \<lparr>KeyFingerprint = Source (hd tasks),
                     EncryptedKey = fst (RsaEncrypt X symKey asymKey),
                     Encrypted = fst (AesEncrypt X ticketM symKey iv), IV = iv\<rparr>"
      by auto
    from requestTaskList_cases [OF req] obtain body b bs where
          nr: "NewRequest X (Uri (Organizations (conf g) ! org)) = None"
      and w': "w' = w\<lparr>entropy := drop 32 (entropy w),
                       sent := sent w @ [\<lparr>req_uri = Uri (Organizations (conf g) ! org), req_query =
                   [(''KeyFingerprint'', KeyFingerprint et),
                    (''EncryptedKey'', EncodeToString X (EncryptedKey et)),
                    (''IV'', EncodeToString X (IV et)),
                    (''Encrypted'', EncodeToString X (Encrypted et))]\<rparr>]\<rparr>"
      and i: "IV et = b # bs"
      and net: "clientDo X (sent w) \<lparr>req_uri = Uri (Organizations (conf g) ! org), req_query =
                   [(''KeyFingerprint'', KeyFingerprint et),
                    (''EncryptedKey'', EncodeToString X (EncryptedKey et)),
                    (''IV'', EncodeToString X (IV et)),
                    (''Encrypted'', EncodeToString X (Encrypted et))]\<rparr> = (body, None)"
      and dec: "tskerrorsDec = fst (AesDecrypt X body symKey ((b XOR 1) # bs))"
      by auto
    have i': "iv = b # bs" using i et by simp
    have "?cond ticket ticketM asymKey (fst (RsaEncrypt X symKey asymKey))
            (fst (AesEncrypt X ticketM symKey iv)) body"
      using o len ct mt k r a nr net dec w'
      by (simp add: et iv'_def i' prod_eq_iff)
    then show ?thesis by blast
  qed
  have bwd: "sendTaskList X g tasks org w = Returns (None, tskerrorsDec) w'"
    if "?cond ticket ticketM asymKey encKey encrypted tskerrors"
    for ticket ticketM asymKey encKey encrypted tskerrors
    using that sendTaskList_answer [of org g tasks w X ticket ticketM asymKey encKey encrypted tskerrors]
    unfolding symKey_def iv_def iv'_def by simp
  from fwd bwd bits show ?thesis
    unfolding Let_def symKey_def [symmetric] iv_def [symmetric] iv'_def [symmetric]
    by blast
qed

theorem sendTaskList_response_IV_witness:
  "take 16 (drop 16 (entropy example_world))
     = [17, 18, 19, 20, 21, 22, 23, 24, 25, 26, 27, 28, 29, 30, 31, 32]
   \<and> sendTaskList (example_extern\<lparr>AesDecrypt := \<lambda>cipher key iv. (iv @ drop 16 cipher, None)\<rparr>)
       example_gateway [example_task ''a'' ''foo''] 0 example_world
     = Returns (None, [16, 18, 19, 20, 21, 22, 23, 24, 25, 26, 27, 28, 29, 30, 31, 32, 91, 93])
      \<lparr>entropy = [33, 34, 35, 36, 37, 38, 39, 40, 41, 42, 43, 44, 45, 46, 47, 48,
                   49, 50, 51, 52, 53, 54, 55, 56, 57, 58, 59, 60, 61, 62, 63, 64,
                   65, 66, 67, 68, 69, 70, 71, 72], clock = 0,
        sent = [\<lparr>req_uri = ''http://localhost:8080/task/'',
                 req_query = [(''KeyFingerprint'', ''foo''),
                              (''EncryptedKey'', ''BBBBBBBBBBBBBBBB''),
                              (''IV'', ''BBBBBBBBBBBBBBBB''),
                              (''Encrypted'', ''BBBBBBBBBBBBBBBBB'')]\<rparr>]\<rparr>"
proof -
  have iv: "take 16 (drop 16 (entropy example_world))
     = [17, 18, 19, 20, 21, 22, 23, 24, 25, 26, 27, 28, 29, 30, 31, 32]"
    by (simp add: example_world_def)
  have "sendTaskList (example_extern\<lparr>AesDecrypt := \<lambda>cipher key iv. (iv @ drop 16 cipher, None)\<rparr>)
       example_gateway [example_task ''a'' ''foo''] 0 example_world
     = Returns (None, [16, 18, 19, 20, 21, 22, 23, 24, 25, 26, 27, 28, 29, 30, 31, 32, 91, 93])
      \<lparr>entropy = [33, 34, 35, 36, 37, 38, 39, 40, 41, 42, 43, 44, 45, 46, 47, 48,
                   49, 50, 51, 52, 53, 54, 55, 56, 57, 58, 59, 60, 61, 62, 63, 64,
                   65, 66, 67, 68, 69, 70, 71, 72], clock = 0,
        sent = [\<lparr>req_uri = ''http://localhost:8080/task/'',
                 req_query = [(''KeyFingerprint'', ''foo''),
                              (''EncryptedKey'', ''BBBBBBBBBBBBBBBB''),
                              (''IV'', ''BBBBBBBBBBBBBBBB''),
                              (''Encrypted'', ''BBBBBBBBBBBBBBBBB'')]\<rparr>]\<rparr>"
    apply (rule sendTaskList_response_IV [unfolded Let_def, THEN conjunct1, THEN iffD2])
    apply (simp add: example_extern_def example_gateway_def example_conf_def example_world_def
             example_task_def createTicket_def)
    done
  with iv show ?thesis by (rule conjI)
qed



section \<open>The first task is always there\<close>

lemma sendTaskList_panics:
  assumes "sendTaskList X g tasks org w = Panics p"
  shows "(p = NilPointerDereference \<and> \<not> org < length (Organizations (conf g)))
       \<or> (p = IndexOutOfRange \<and> tasks = [] \<and> org < length (Organizations (conf g)))"
proof (cases "org < length (Organizations (conf g))")
  case False
  with assms show ?thesis by (simp add: sendTaskList_def)
next
  case org: True
  show ?thesis
  proof (cases tasks)
    case Nil
    with assms org show ?thesis by (simp add: sendTaskList_def)
  next
    case (Cons task0 rest)
    obtain symKey e1 w1 where r1: "ReadFull 16 w = ((symKey, e1), w1)"
      by (metis prod.exhaust)
    obtain iv e2 w2 where r2: "ReadFull 16 w1 = ((iv, e2), w2)"
      by (metis prod.exhaust)
    have False
    proof (cases "e1 = None \<and> e2 = None")
      case False
      with assms org Cons r1 r2 show False
        by (cases e1; cases e2) (auto simp: sendTaskList_def)
    next
      case True
      with ReadFull_ok [of 16 w1 iv w2] r2 have "length iv = 16" by simp
      then have "iv \<noteq> []" by auto
      with assms org Cons r1 r2 True show False
        by (auto simp: sendTaskList_def encryptTicket_never_nil_nil requestTaskList_no_panic
                 split: prod.splits option.splits run.splits
                 dest!: encryptTicket_Some)
    qed
    then show ?thesis ..
  qed
qed

lemma sendTaskList_empty:
  "org < length (Organizations (conf g)) \<Longrightarrow> sendTaskList X g [] org w = Panics IndexOutOfRange"
  by (simp add: sendTaskList_def)

lemma handleTask_group_panics:
  assumes "handleTask_group X g (org, tasklist) w = Panics p"
  shows "(p = NilPointerDereference \<and> \<not> org < length (Organizations (conf g)))
       \<or> (p = IndexOutOfRange \<and> tasklist = [] \<and> org < length (Organizations (conf g)))"
proof -
  from assms have "sendTaskList X g tasklist org w = Panics p"
    by (auto simp: handleTask_group_def split: run.splits option.splits prod.splits)
  then show ?thesis by (rule sendTaskList_panics)
qed

lemma handleTask_dispatch_panics:
  assumes "handleTask_dispatch X g groups tskerrors w = Panics p"
  shows "\<exists>org tasklist. (org, tasklist) \<in> set groups
          \<and> ((p = NilPointerDereference \<and> \<not> org < length (Organizations (conf g)))
             \<or> (p = IndexOutOfRange \<and> tasklist = []))"
  using assms
proof (induction groups arbitrary: tskerrors w)
  case Nil
  then show ?case by simp
next
  case (Cons entry rest)
  obtain org tasklist where e: "entry = (org, tasklist)" by (cases entry)
  show ?case
  proof (cases "handleTask_group X g entry w")
    case (Panics q)
    with Cons.prems have "q = p" by simp
    with Panics handleTask_group_panics [of X g org tasklist w p] e show ?thesis
      by auto
  next
    case (Returns errs w1)
    with Cons.prems have "handleTask_dispatch X g rest (tskerrors @ errs) w1 = Panics p"
      by simp
    from Cons.IH [OF this] show ?thesis by auto
  qed
qed

lemma partition_keys:
  "(org, tasklist) \<in> set (fst (handleTask_partition r tasks tls errs))
     \<Longrightarrow> org \<in> fst ` set tls \<or> org \<in> ran r"
proof (induction tasks arbitrary: tls errs)
  case Nil
  then show ?case by force
next
  case (Cons task tasks)
  show ?case
  proof (cases "r (Source task)")
    case None
    with Cons show ?thesis by simp
  next
    case (Some o1)
    then have o1: "o1 \<in> ran r" by (auto simp: ran_def)
    show ?thesis
    proof (cases "map_of tls o1")
      case None
      with Cons.prems Some have
        "(org, tasklist) \<in> set (fst (handleTask_partition r tasks (tls @ [(o1, [task])]) errs))"
        by simp
      from Cons.IH [OF this] o1 show ?thesis by auto
    next
      case (Some old)
      with Cons.prems \<open>r (Source task) = Some o1\<close> have
        "(org, tasklist) \<in> set (fst (handleTask_partition r tasks
            (AList.update o1 (old @ [task]) tls) errs))"
        by simp
      moreover have "map fst (AList.update o1 (old @ [task]) tls) = map fst tls"
        using Some by (simp add: update_keys map_of_eq_None_iff [symmetric])
      then have "fst ` set (AList.update o1 (old @ [task]) tls) = fst ` set tls"
        by (metis set_map)
      ultimately show ?thesis
        using Cons.IH by auto
    qed
  qed
qed

lemma initSourceRouting_sources_bound:
  "initSourceRouting_sources num srcs router src = Some p
     \<Longrightarrow> router src = Some p \<or> p = num"
  by (induction num srcs router rule: initSourceRouting_sources.induct) (auto split: if_splits)

lemma initSourceRouting_loop_bound:
  "initSourceRouting_loop c num orgs st = (router', own')
     \<Longrightarrow> (\<forall>src p. router' src = Some p \<longrightarrow> fst st src = Some p \<or> (num \<le> p \<and> p < num + length orgs))
       \<and> (\<forall>p. own' = Some p \<longrightarrow> snd st = Some p \<or> (num \<le> p \<and> p < num + length orgs))"
proof (induction c num orgs st rule: initSourceRouting_loop.induct)
  case (1 c num st)
  then show ?case by auto
next
  case (2 c num org rest router own)
  from 2 show ?case
    by (fastforce dest: initSourceRouting_sources_bound split: if_splits)
qed

lemma initSourceRouting_bound:
  assumes "initSourceRouting c = Some (router, own)"
  shows "own < length (Organizations c)
       \<and> (\<forall>p \<in> ran router. p < length (Organizations c))"
proof -
  from assms have "initSourceRouting_loop c 0 (Organizations c) (Map.empty, None) = (router, Some own)"
    by (auto simp: initSourceRouting_def split: prod.splits option.splits)
  from initSourceRouting_loop_bound [OF this] show ?thesis
    by (auto simp: ran_def)
qed


lemma RoundTrip_no_index_panic:
  "RoundTrip X g request w \<noteq> Panics IndexOutOfRange"
proof
  assume a: "RoundTrip X g request w = Panics IndexOutOfRange"
  then obtain task where "sendTaskList X g [task] (ownOrganization g) w = Panics IndexOutOfRange"
    by (auto simp: RoundTrip_def Let_def split: prod.splits option.splits if_splits run.splits)
  from sendTaskList_panics [OF this] show False by simp
qed

text \<open>
  C10. Provided \<open>range\<close> visits exactly the entries of the map, every group that
  \<open>handleTask\<close> dispatches has at least one task, so neither \<open>handleTask\<close> nor
  \<open>RoundTrip\<close> (which passes a list of one task) ever panics with an index out of
  range; \<open>sendTaskList\<close> itself does panic so when it is given the empty list. In a
  gateway whose routing index was built by \<open>initSourceRouting\<close>, \<open>handleTask\<close> does
  not panic at all.
\<close>

theorem sendTaskList_always_nonempty:
  assumes "\<forall>tasklists. mset (mapRange X tasklists) = mset tasklists"
  shows "(\<forall>entry \<in> set (mapRange X (fst (handleTask_partition (srcRouter g) tasks [] []))).
            snd entry \<noteq> [])
       \<and> handleTask X g tasksStr username password w \<noteq> Panics IndexOutOfRange
       \<and> RoundTrip X g request w \<noteq> Panics IndexOutOfRange
       \<and> (org < length (Organizations (conf g))
            \<longrightarrow> sendTaskList X g [] org w = Panics IndexOutOfRange)
       \<and> (initSourceRouting (conf g) = Some (srcRouter g, ownOrganization g)
            \<longrightarrow> (\<forall>p. handleTask X g tasksStr username password w \<noteq> Panics p))"
proof -
  have sets: "set (mapRange X tl) = set tl" for tl
    using assms by (metis set_mset_mset)
  have ne: "snd entry \<noteq> []"
    if "entry \<in> set (mapRange X (fst (handleTask_partition (srcRouter g) ts [] [])))"
    for entry ts
    using that partition_nonempty [of "fst entry" "snd entry" "srcRouter g" ts "[]"]
    by (simp add: sets)
  have disp: "\<exists>ts org tasklist.
        (org, tasklist) \<in> set (fst (handleTask_partition (srcRouter g) ts [] []))
      \<and> p = NilPointerDereference \<and> \<not> org < length (Organizations (conf g))"
    if "handleTask X g tasksStr username password w = Panics p" for p
  proof -
    from that obtain ts tl errs where
      "handleTask_partition (srcRouter g) ts [] [] = (tl, errs)"
      "handleTask_dispatch X g (mapRange X tl) errs w = Panics p"
      by (auto simp: handleTask_def split: prod.splits option.splits)
    then have "handleTask_dispatch X g
        (mapRange X (fst (handleTask_partition (srcRouter g) ts [] []))) errs w = Panics p"
      by simp
    from handleTask_dispatch_panics [OF this] ne [of _ ts] show ?thesis
      by (fastforce simp: sets)
  qed
  have 1: "handleTask X g tasksStr username password w \<noteq> Panics IndexOutOfRange"
    using disp [of IndexOutOfRange] by auto
  have 2: "handleTask X g tasksStr username password w \<noteq> Panics p"
    if wf: "initSourceRouting (conf g) = Some (srcRouter g, ownOrganization g)" for p
  proof
    assume "handleTask X g tasksStr username password w = Panics p"
    from disp [OF this] obtain ts org tasklist where
      m: "(org, tasklist) \<in> set (fst (handleTask_partition (srcRouter g) ts [] []))"
      and o: "\<not> org < length (Organizations (conf g))"
      by auto
    from partition_keys [OF m] have "org \<in> ran (srcRouter g)" by simp
    with initSourceRouting_bound [OF wf] o show False by auto
  qed
  from ne 1 2 show ?thesis
    by (auto simp: RoundTrip_no_index_panic sendTaskList_empty)
qed

theorem sendTaskList_always_nonempty_witness:
  "(\<forall>tasklists. mset (mapRange example_extern tasklists) = mset tasklists)
   \<and> handleTask example_extern example_gateway ''[foo,blub]'' ''test'' ''secret'' example_world
       \<noteq> Panics IndexOutOfRange
   \<and> sendTaskList example_extern example_gateway [] 0 example_world = Panics IndexOutOfRange
   \<and> initSourceRouting (conf example_gateway)
       = Some (srcRouter example_gateway, ownOrganization example_gateway)"
proof -
  have h: "\<forall>tasklists. mset (mapRange example_extern tasklists) = mset tasklists"
    by (simp add: example_extern_def)
  have i: "initSourceRouting (conf example_gateway)
             = Some (srcRouter example_gateway, ownOrganization example_gateway)"
    by (simp add: initSourceRouting_def example_gateway_def example_conf_def)
  have l: "0 < length (Organizations (conf example_gateway))"
    by (simp add: example_gateway_def example_conf_def)
  show ?thesis
    using h i l sendTaskList_always_nonempty [OF h, of example_gateway "[]" "''[foo,blub]''"
        "''test''" "''secret''" example_world example_request 0]
    by simp
qed

section \<open>The automatic task of the storage proxy\<close>

lemma sendTaskList_sent:
  assumes "sendTaskList X g tasks org w = Returns r w'"
  shows "sent w' = sent w
       \<or> (\<exists>req. sent w' = sent w @ [req] \<and> req_uri req = Uri (Organizations (conf g) ! org)
              \<and> map_of (req_query req) ''KeyFingerprint'' = Some (Source (hd tasks)))"
proof -
  obtain err out where r: "r = (err, out)" by (cases r)
  from sendTaskList_cases [OF assms [unfolded r]]
  consider "sent w' = sent w"
    | ticketM et et' where
        "encryptTicket X g ticketM (Source (hd tasks)) (take 16 (entropy w))
                (take 16 (drop 16 (entropy w))) = (Some et, None)"
        "requestTaskList X (Uri (Organizations (conf g) ! org)) et (take 16 (entropy w))
                (w\<lparr>entropy := drop 32 (entropy w)\<rparr>) = Returns ((err, out), et') w'"
    by auto
  then show ?thesis
  proof cases
    case 1
    then show ?thesis by simp
  next
    case 2
    from encryptTicket_Some [OF 2(1)] have "KeyFingerprint et = Source (hd tasks)"
      by auto
    with requestTaskList_cases [OF 2(2)] show ?thesis
      by auto
  qed
qed

lemma RoundTrip_no_auto_task:
  assumes "Body request = (reqbuf, None)"
      and "authenticate X g (FormValue X request ''username'') (FormValue X request ''password'')
             = (Some user, None)"
      and "Transport_RoundTrip X
             (request\<lparr>RawQuery := Encode X (AList.update ''user_id'' [Itoa X (Id user)]
                                              (ParseQuery X (RawQuery request)))\<rparr>)
             = (Some response, None)"
      and "resp_Body response = (buf, None)"
      and "ResponseCode (fst (UnmarshalStorageResponse X buf)) \<noteq> 1 \<or> AutoTasks (conf g) = []"
  shows "RoundTrip X g request w = Returns (Some response, None) w"
proof -
  have req: "request\<lparr>Body := (reqbuf, None)\<rparr> = request"
    using assms(1) by (metis proxy_request.update_convs(3) proxy_request.surjective proxy_request.select_convs(3))
  have resp: "response\<lparr>resp_Body := (buf, None)\<rparr> = response"
    using assms(4) by (metis proxy_response.update_convs(3) proxy_response.surjective proxy_response.select_convs(3))
  show ?thesis
    using assms by (auto simp: RoundTrip_def req resp)
qed

text \<open>
  C5. When the request body is read, the user authenticates, storage answers, the
  answer's body is read and decodes with \<open>ResponseCode\<close> 1, and the configured
  \<open>AutoTasks\<close> are not empty, \<open>RoundTrip\<close> calls \<open>sendTaskList\<close> once, for the own
  organization, with the one task whose \<open>PrimaryURI\<close> is the storage URI followed by
  the returned \<open>Sha256\<close>, whose \<open>Filename\<close> and \<open>Source\<close> are the form values
  \<open>name\<close> and \<open>source\<close>, whose \<open>Tasks\<close> are the \<open>AutoTasks\<close> and whose \<open>Download\<close>
  is true. Whatever that call returns, error or not, \<open>RoundTrip\<close> returns storage's
  response as it came, with no error; at most one request went out, to the own
  organization's URI.
\<close>

theorem RoundTrip_auto_task:
  assumes "Body request = (reqbuf, None)"
      and "authenticate X g (FormValue X request ''username'') (FormValue X request ''password'')
             = (Some user, None)"
      and "Transport_RoundTrip X
             (request\<lparr>RawQuery := Encode X (AList.update ''user_id'' [Itoa X (Id user)]
                                              (ParseQuery X (RawQuery request)))\<rparr>)
             = (Some response, None)"
      and "resp_Body response = (buf, None)"
      and "ResponseCode (fst (UnmarshalStorageResponse X buf)) = 1"
      and "AutoTasks (conf g) \<noteq> []"
      and "ownOrganization g < length (Organizations (conf g))"
  shows "\<exists>r w'.
           sendTaskList X g
             [\<lparr>PrimaryURI = StorageURI (conf g) @ Sha256 (Result (fst (UnmarshalStorageResponse X buf))),
               SecondaryURI = [],
               Filename = FormValue X request ''name'',
               Tasks = AutoTasks (conf g),
               Tags = [],
               Attempts = 0,
               Source = FormValue X request ''source'',
               Download = True\<rparr>] (ownOrganization g) w = Returns r w'
         \<and> RoundTrip X g request w = Returns (Some response, None) w'
         \<and> (sent w' = sent w
            \<or> (\<exists>req. sent w' = sent w @ [req]
                 \<and> req_uri req = Uri (Organizations (conf g) ! ownOrganization g)
                 \<and> map_of (req_query req) ''KeyFingerprint'' = Some (FormValue X request ''source'')))"
proof -
  let ?task = "\<lparr>PrimaryURI = StorageURI (conf g) @ Sha256 (Result (fst (UnmarshalStorageResponse X buf))),
               SecondaryURI = [],
               Filename = FormValue X request ''name'',
               Tasks = AutoTasks (conf g),
               Tags = [],
               Attempts = 0,
               Source = FormValue X request ''source'',
               Download = True\<rparr>"
  have req: "request\<lparr>Body := (reqbuf, None)\<rparr> = request"
    using assms(1) by (metis proxy_request.update_convs(3) proxy_request.surjective proxy_request.select_convs(3))
  have resp: "response\<lparr>resp_Body := (buf, None)\<rparr> = response"
    using assms(4) by (metis proxy_response.update_convs(3) proxy_response.surjective proxy_response.select_convs(3))
  obtain r w' where s: "sendTaskList X g [?task] (ownOrganization g) w = Returns r w'"
    using sendTaskList_panics [of X g "[?task]" "ownOrganization g" w] assms(7)
    by (cases "sendTaskList X g [?task] (ownOrganization g) w") auto
  have "RoundTrip X g request w = Returns (Some response, None) w'"
    using assms(1-6) s by (simp add: RoundTrip_def req resp)
  with s sendTaskList_sent [OF s] show ?thesis
    by auto
qed

theorem RoundTrip_auto_task_witness:
  "RoundTrip example_extern example_gateway example_request example_world
     = Returns (Some \<lparr>StatusCode = 200, resp_Header = [], resp_Body = ([49], None)\<rparr>, None)
      \<lparr>entropy = [33, 34, 35, 36, 37, 38, 39, 40, 41, 42, 43, 44, 45, 46, 47, 48,
                   49, 50, 51, 52, 53, 54, 55, 56, 57, 58, 59, 60, 61, 62, 63, 64,
                   65, 66, 67, 68, 69, 70, 71, 72], clock = 0,
        sent = [\<lparr>req_uri = ''http://localhost:8080/task/'',
                 req_query = [(''KeyFingerprint'', ''foo''),
                              (''EncryptedKey'', ''BBBBBBBBBBBBBBBB''),
                              (''IV'', ''BBBBBBBBBBBBBBBB''),
                              (''Encrypted'', ''BBBBBBBBBBBBBBBBB'')]\<rparr>]\<rparr>
   \<and> sendTaskList example_extern example_gateway
        [\<lparr>PrimaryURI = ''http://10.0.4.79:8017/samples/e3b0'', SecondaryURI = [],
          Filename = ''sample.exe'', Tasks = [(''PEINFO'', [[]]), (''YARA'', [[]])], Tags = [],
          Attempts = 0, Source = ''foo'', Download = True\<rparr>] 0 example_world
     = Returns (None, [91, 93])
      \<lparr>entropy = [33, 34, 35, 36, 37, 38, 39, 40, 41, 42, 43, 44, 45, 46, 47, 48,
                   49, 50, 51, 52, 53, 54, 55, 56, 57, 58, 59, 60, 61, 62, 63, 64,
                   65, 66, 67, 68, 69, 70, 71, 72], clock = 0,
        sent = [\<lparr>req_uri = ''http://localhost:8080/task/'',
                 req_query = [(''KeyFingerprint'', ''foo''),
                              (''EncryptedKey'', ''BBBBBBBBBBBBBBBB''),
                              (''IV'', ''BBBBBBBBBBBBBBBB''),
                              (''Encrypted'', ''BBBBBBBBBBBBBBBBB'')]\<rparr>]\<rparr>"
proof -
  have 1: "Body example_request = ([], None)"
    by (simp add: example_request_def)
  have 2: "authenticate example_extern example_gateway
             (FormValue example_extern example_request ''username'')
             (FormValue example_extern example_request ''password'')
           = (Some \<lparr>User_Name = ''test'', PasswordHash = ''hash-of-secret'', Id = 0\<rparr>, None)"
    by (simp add: authenticate_def example_extern_def example_gateway_def example_request_def)
  have 3: "Transport_RoundTrip example_extern
             (example_request\<lparr>RawQuery := Encode example_extern
                (AList.update ''user_id''
                   [Itoa example_extern (Id \<lparr>User_Name = ''test'', PasswordHash = ''hash-of-secret'', Id = 0\<rparr>)]
                   (ParseQuery example_extern (RawQuery example_request)))\<rparr>)
           = (Some \<lparr>StatusCode = 200, resp_Header = [], resp_Body = ([49], None)\<rparr>, None)"
    by (simp add: example_extern_def)
  have 4: "resp_Body \<lparr>StatusCode = 200, resp_Header = [], resp_Body = ([49], None)\<rparr> = ([49], None)"
    by simp
  have 5: "ResponseCode (fst (UnmarshalStorageResponse example_extern [49])) = 1"
    by (simp add: example_extern_def)
  have 6: "AutoTasks (conf example_gateway) \<noteq> []"
    by (simp add: example_gateway_def example_conf_def)
  have 7: "ownOrganization example_gateway < length (Organizations (conf example_gateway))"
    by (simp add: example_gateway_def example_conf_def)
  have s: "sendTaskList example_extern example_gateway
        [\<lparr>PrimaryURI = ''http://10.0.4.79:8017/samples/e3b0'', SecondaryURI = [],
          Filename = ''sample.exe'', Tasks = [(''PEINFO'', [[]]), (''YARA'', [[]])], Tags = [],
          Attempts = 0, Source = ''foo'', Download = True\<rparr>] 0 example_world
     = Returns (None, [91, 93])
      \<lparr>entropy = [33, 34, 35, 36, 37, 38, 39, 40, 41, 42, 43, 44, 45, 46, 47, 48,
                   49, 50, 51, 52, 53, 54, 55, 56, 57, 58, 59, 60, 61, 62, 63, 64,
                   65, 66, 67, 68, 69, 70, 71, 72], clock = 0,
        sent = [\<lparr>req_uri = ''http://localhost:8080/task/'',
                 req_query = [(''KeyFingerprint'', ''foo''),
                              (''EncryptedKey'', ''BBBBBBBBBBBBBBBB''),
                              (''IV'', ''BBBBBBBBBBBBBBBB''),
                              (''Encrypted'', ''BBBBBBBBBBBBBBBBB'')]\<rparr>]\<rparr>"
    by (simp add: sendTaskList_def example_extern_def example_gateway_def example_conf_def
          example_world_def ReadFull_def createTicket_def encryptTicket_def
          encryptKey_def requestTaskList_def)
  have t: "\<lparr>PrimaryURI = StorageURI (conf example_gateway)
                  @ Sha256 (Result (fst (UnmarshalStorageResponse example_extern [49]))),
               SecondaryURI = [],
               Filename = FormValue example_extern example_request ''name'',
               Tasks = AutoTasks (conf example_gateway),
               Tags = [],
               Attempts = 0,
               Source = FormValue example_extern example_request ''source'',
               Download = True\<rparr>
         = \<lparr>PrimaryURI = ''http://10.0.4.79:8017/samples/e3b0'', SecondaryURI = [],
          Filename = ''sample.exe'', Tasks = [(''PEINFO'', [[]]), (''YARA'', [[]])], Tags = [],
          Attempts = 0, Source = ''foo'', Download = True\<rparr>"
    by (simp add: example_extern_def example_gateway_def example_conf_def example_request_def)
  have o: "ownOrganization example_gateway = 0"
    by (simp add: example_gateway_def)
  from RoundTrip_auto_task [OF 1 2 3 4 5 6 7, of example_world]
  show ?thesis
    unfolding t o s by auto
qed

section \<open>Dispatching the groups\<close>

lemma handleTask_group_cases:
  assumes "handleTask_group X g (org, tasklist) w = Returns errs w'"
  shows "(\<exists>err out. sendTaskList X g tasklist org w = Returns (Some err, out) w'
            \<and> errs = map (\<lambda>task. \<lparr>TaskStruct = task,
                                    Error = ''Error while sending task! '' @ err\<rparr>) tasklist)
       \<or> (\<exists>err out p. sendTaskList X g tasklist org w = Returns (None, out) w'
            \<and> UnmarshalTaskErrors X out = (p, Some err)
            \<and> errs = map (\<lambda>task. \<lparr>TaskStruct = task,
                                    Error = ''Error while parsing result! '' @ err\<rparr>) tasklist)
       \<or> (\<exists>out. sendTaskList X g tasklist org w = Returns (None, out) w'
            \<and> UnmarshalTaskErrors X out = (errs, None))"
  using assms
  by (auto simp: handleTask_group_def split: run.splits option.splits prod.splits)

lemma handleTask_dispatch_chain:
  assumes "handleTask_dispatch X g groups tskerrors w = Returns r w'"
  shows "\<exists>ess ws. length ess = length groups \<and> length ws = Suc (length groups)
           \<and> ws ! 0 = w \<and> ws ! length groups = w'
           \<and> (\<forall>i<length groups.
                 handleTask_group X g (groups ! i) (ws ! i) = Returns (ess ! i) (ws ! Suc i))
           \<and> r = (None, Some (tskerrors @ concat ess))"
  using assms
proof (induction groups arbitrary: tskerrors w)
  case Nil
  then show ?case
    by (auto intro!: exI [of _ "[]"] exI [of _ "[w]"])
next
  case (Cons entry rest)
  from Cons.prems obtain errs w1 where
        g: "handleTask_group X g entry w = Returns errs w1"
    and d: "handleTask_dispatch X g rest (tskerrors @ errs) w1 = Returns r w'"
    by (auto split: run.splits)
  from Cons.IH [OF d] obtain ess ws where
        l: "length ess = length rest" "length ws = Suc (length rest)"
    and e: "ws ! 0 = w1" "ws ! length rest = w'"
    and s: "\<forall>i<length rest.
              handleTask_group X g (rest ! i) (ws ! i) = Returns (ess ! i) (ws ! Suc i)"
    and r: "r = (None, Some ((tskerrors @ errs) @ concat ess))"
    by blast
  have "\<forall>i<length (entry # rest).
          handleTask_group X g ((entry # rest) ! i) ((w # ws) ! i)
            = Returns ((errs # ess) ! i) ((w # ws) ! Suc i)"
    using g s e(1) by (auto simp: nth_Cons split: nat.splits)
  with l e r show ?case
    by (intro exI [of _ "errs # ess"] exI [of _ "w # ws"]) simp
qed

lemma handleTask_dispatch_acc:
  "handleTask_dispatch X g groups acc w =
     (case handleTask_dispatch X g groups [] w of
        Panics p \<Rightarrow> Panics p
      | Returns (e, res) w2 \<Rightarrow> Returns (e, map_option (\<lambda>es. acc @ es) res) w2)"
proof (induction groups arbitrary: acc w)
  case Nil
  then show ?case by simp
next
  case (Cons entry rest)
  show ?case
  proof (cases "handleTask_group X g entry w")
    case (Panics p)
    then show ?thesis by simp
  next
    case (Returns errs w1)
    have "handleTask_dispatch X g (entry # rest) acc w
            = handleTask_dispatch X g rest (acc @ errs) w1"
      using Returns by simp
    also have "\<dots> = (case handleTask_dispatch X g rest [] w1 of
        Panics p \<Rightarrow> Panics p
      | Returns (e, res) w2 \<Rightarrow> Returns (e, map_option (\<lambda>es. (acc @ errs) @ es) res) w2)"
      by (rule Cons.IH)
    finally have lhs: "handleTask_dispatch X g (entry # rest) acc w
        = (case handleTask_dispatch X g rest [] w1 of
        Panics p \<Rightarrow> Panics p
      | Returns (e, res) w2 \<Rightarrow> Returns (e, map_option (\<lambda>es. (acc @ errs) @ es) res) w2)" .
    have "handleTask_dispatch X g (entry # rest) [] w = handleTask_dispatch X g rest errs w1"
      using Returns by simp
    also have "\<dots> = (case handleTask_dispatch X g rest [] w1 of
        Panics p \<Rightarrow> Panics p
      | Returns (e, res) w2 \<Rightarrow> Returns (e, map_option (\<lambda>es. errs @ es) res) w2)"
      by (rule Cons.IH)
    finally have rhs: "handleTask_dispatch X g (entry # rest) [] w
        = (case handleTask_dispatch X g rest [] w1 of
        Panics p \<Rightarrow> Panics p
      | Returns (e, res) w2 \<Rightarrow> Returns (e, map_option (\<lambda>es. errs @ es) res) w2)" .
    have eq: "(@) (acc @ errs) = (\<lambda>x. acc @ errs @ x)"
      by (rule ext) simp
    show ?thesis
      unfolding lhs rhs
      by (auto split: run.splits option.splits simp: option.map_comp comp_def eq)
  qed
qed

text \<open>
  C9, as amended. When the dispatch of a group returns no error and the decrypted answer
  does not decode, the iteration appends one error for every task of the group, in the
  group's order, each with the text "Error while parsing result! " followed by the
  decoder's error, and the loop goes on with the remaining groups, in the world the
  dispatch left: they are dispatched exactly as they would be with an empty error list,
  and their errors follow.
\<close>

theorem handleTask_decode_failure:
  assumes "sendTaskList X g tasklist org w = Returns (None, tskOrgErrors) w1"
      and "UnmarshalTaskErrors X tskOrgErrors = (tskOrgErrorsP, Some err)"
  shows "handleTask_group X g (org, tasklist) w
           = Returns (map (\<lambda>task. \<lparr>TaskStruct = task,
                                   Error = ''Error while parsing result! '' @ err\<rparr>) tasklist) w1
       \<and> handleTask_dispatch X g ((org, tasklist) # rest) tskerrors w
           = handleTask_dispatch X g rest
               (tskerrors @ map (\<lambda>task. \<lparr>TaskStruct = task,
                                   Error = ''Error while parsing result! '' @ err\<rparr>) tasklist) w1
       \<and> handleTask_dispatch X g ((org, tasklist) # rest) tskerrors w
           = (case handleTask_dispatch X g rest [] w1 of
                Panics p \<Rightarrow> Panics p
              | Returns (e, res) w2 \<Rightarrow>
                  Returns (e, map_option (\<lambda>es. tskerrors
                     @ map (\<lambda>task. \<lparr>TaskStruct = task,
                                   Error = ''Error while parsing result! '' @ err\<rparr>) tasklist
                     @ es) res) w2)"
proof -
  let ?M = "map (\<lambda>task. \<lparr>TaskStruct = task,
                             Error = ''Error while parsing result! '' @ err\<rparr>) tasklist"
  have g: "handleTask_group X g (org, tasklist) w = Returns ?M w1"
    using assms by (simp add: handleTask_group_def)
  have d: "handleTask_dispatch X g ((org, tasklist) # rest) tskerrors w
             = handleTask_dispatch X g rest (tskerrors @ ?M) w1"
    using g by simp
  have eq: "(@) (tskerrors @ ?M) = (\<lambda>es. tskerrors @ ?M @ es)"
    by (rule ext) simp
  have a: "handleTask_dispatch X g rest (tskerrors @ ?M) w1
             = (case handleTask_dispatch X g rest [] w1 of
                  Panics p \<Rightarrow> Panics p
                | Returns (e, res) w2 \<Rightarrow>
                    Returns (e, map_option (\<lambda>es. tskerrors @ ?M @ es) res) w2)"
    using handleTask_dispatch_acc [of X g rest "tskerrors @ ?M" w1] unfolding eq .
  show ?thesis
    by (intro conjI) (rule g, rule d, rule trans [OF d a])
qed


theorem handleTask_decode_failure_witness:
  "sendTaskList (example_extern\<lparr>clientDo := \<lambda>history req. ([60, 104, 116, 109, 108, 62], None)\<rparr>) example_gateway
       [example_task ''a'' ''foo'', example_task ''d'' ''bar''] 0 example_world
     = Returns (None, [])
      \<lparr>entropy = [33, 34, 35, 36, 37, 38, 39, 40, 41, 42, 43, 44, 45, 46, 47, 48,
                   49, 50, 51, 52, 53, 54, 55, 56, 57, 58, 59, 60, 61, 62, 63, 64,
                   65, 66, 67, 68, 69, 70, 71, 72], clock = 0,
        sent = [\<lparr>req_uri = ''http://localhost:8080/task/'',
                 req_query = [(''KeyFingerprint'', ''foo''),
                              (''EncryptedKey'', ''BBBBBBBBBBBBBBBB''),
                              (''IV'', ''BBBBBBBBBBBBBBBB''),
                              (''Encrypted'', ''BBBBBBBBBBBBBBBBBB'')]\<rparr>]\<rparr>
   \<and> UnmarshalTaskErrors (example_extern\<lparr>clientDo := \<lambda>history req. ([60, 104, 116, 109, 108, 62], None)\<rparr>) [] = ([], Some ''unexpected end of JSON input'')
   \<and> handleTask_dispatch (example_extern\<lparr>clientDo := \<lambda>history req. ([60, 104, 116, 109, 108, 62], None)\<rparr>) example_gateway
       [(0, [example_task ''a'' ''foo'', example_task ''d'' ''bar''])] [] example_world
     = Returns (None, Some
         [\<lparr>TaskStruct = example_task ''a'' ''foo'', Error = ''Error while parsing result! unexpected end of JSON input''\<rparr>,
          \<lparr>TaskStruct = example_task ''d'' ''bar'', Error = ''Error while parsing result! unexpected end of JSON input''\<rparr>])
      \<lparr>entropy = [33, 34, 35, 36, 37, 38, 39, 40, 41, 42, 43, 44, 45, 46, 47, 48,
                   49, 50, 51, 52, 53, 54, 55, 56, 57, 58, 59, 60, 61, 62, 63, 64,
                   65, 66, 67, 68, 69, 70, 71, 72], clock = 0,
        sent = [\<lparr>req_uri = ''http://localhost:8080/task/'',
                 req_query = [(''KeyFingerprint'', ''foo''),
                              (''EncryptedKey'', ''BBBBBBBBBBBBBBBB''),
                              (''IV'', ''BBBBBBBBBBBBBBBB''),
                              (''Encrypted'', ''BBBBBBBBBBBBBBBBBB'')]\<rparr>]\<rparr>"
proof -
  have 1: "sendTaskList (example_extern\<lparr>clientDo := \<lambda>history req. ([60, 104, 116, 109, 108, 62], None)\<rparr>) example_gateway
       [example_task ''a'' ''foo'', example_task ''d'' ''bar''] 0 example_world
     = Returns (None, [])
      \<lparr>entropy = [33, 34, 35, 36, 37, 38, 39, 40, 41, 42, 43, 44, 45, 46, 47, 48,
                   49, 50, 51, 52, 53, 54, 55, 56, 57, 58, 59, 60, 61, 62, 63, 64,
                   65, 66, 67, 68, 69, 70, 71, 72], clock = 0,
        sent = [\<lparr>req_uri = ''http://localhost:8080/task/'',
                 req_query = [(''KeyFingerprint'', ''foo''),
                              (''EncryptedKey'', ''BBBBBBBBBBBBBBBB''),
                              (''IV'', ''BBBBBBBBBBBBBBBB''),
                              (''Encrypted'', ''BBBBBBBBBBBBBBBBBB'')]\<rparr>]\<rparr>"
    by (simp add: sendTaskList_def example_extern_def example_gateway_def example_conf_def
          example_world_def example_task_def ReadFull_def createTicket_def encryptTicket_def
          encryptKey_def requestTaskList_def)
  have 2: "UnmarshalTaskErrors (example_extern\<lparr>clientDo := \<lambda>history req. ([60, 104, 116, 109, 108, 62], None)\<rparr>) [] = ([], Some ''unexpected end of JSON input'')"
    by (simp add: example_extern_def)
  show ?thesis
    using 1 2 handleTask_decode_failure [OF 1 2, of "[]" "[]"]
    by simp
qed

text \<open>
  C9 as stated fails: a batch of two tasks for the same organization, whose answer does
  not decode, yields two error records, one for each task, not a single one for the
  sub-batch.
\<close>

theorem handleTask_decode_failure_one_error_per_task:
  "handleTask (example_extern\<lparr>clientDo := \<lambda>history req. ([60, 104, 116, 109, 108, 62], None)\<rparr>) example_gateway ''[foo,bar]'' ''test'' ''secret'' example_world
     = Returns (None, Some
         [\<lparr>TaskStruct = example_task ''a'' ''foo'', Error = ''Error while parsing result! unexpected end of JSON input''\<rparr>,
          \<lparr>TaskStruct = example_task ''d'' ''bar'', Error = ''Error while parsing result! unexpected end of JSON input''\<rparr>])
      \<lparr>entropy = [33, 34, 35, 36, 37, 38, 39, 40, 41, 42, 43, 44, 45, 46, 47, 48,
                   49, 50, 51, 52, 53, 54, 55, 56, 57, 58, 59, 60, 61, 62, 63, 64,
                   65, 66, 67, 68, 69, 70, 71, 72], clock = 0,
        sent = [\<lparr>req_uri = ''http://localhost:8080/task/'',
                 req_query = [(''KeyFingerprint'', ''foo''),
                              (''EncryptedKey'', ''BBBBBBBBBBBBBBBB''),
                              (''IV'', ''BBBBBBBBBBBBBBBB''),
                              (''Encrypted'', ''BBBBBBBBBBBBBBBBBB'')]\<rparr>]\<rparr>"
  by (simp add: handleTask_def authenticate_def handleTask_group_def sendTaskList_def example_extern_def example_gateway_def example_conf_def
          example_world_def example_task_def ReadFull_def createTicket_def encryptTicket_def
          encryptKey_def requestTaskList_def)

text \<open>
  C8, as amended. After authentication and decoding, \<open>handleTask\<close> dispatches the groups
  one at a time, each starting in the world the one before it left, in the order in which
  \<open>range\<close> visits the map, which the language leaves open; when \<open>range\<close> visits
  exactly the entries of the map, every group is dispatched once, and the tasks of a group
  are those of the batch routed to its organization, in the batch's order. The error
  list returned is the errors of the unrouted tasks, in the batch's order, followed by
  the errors of the groups in the order of their dispatch. The errors of a group are
  either one record per task of the group, in the group's order and with one text (a
  failed send, an answer that does not decode), or the records the organization
  answered, as the decoder delivered them.
\<close>

theorem handleTask_dispatch_order:
  assumes "authenticate X g username password = (user, None)"
      and "UnmarshalTasks X tasksStr = (tasks, None)"
      and "handleTask_partition (srcRouter g) tasks [] [] = (tasklists, noroute)"
      and "mset (mapRange X tasklists) = mset tasklists"
      and "handleTask X g tasksStr username password w = Returns r w'"
  shows "\<exists>ess ws.
           length ess = length tasklists \<and> length ws = Suc (length tasklists)
         \<and> ws ! 0 = w \<and> ws ! length tasklists = w'
         \<and> (\<forall>i<length tasklists.
               handleTask_group X g (mapRange X tasklists ! i) (ws ! i)
                 = Returns (ess ! i) (ws ! Suc i)
             \<and> snd (mapRange X tasklists ! i)
                 = filter (\<lambda>t. srcRouter g (Source t) = Some (fst (mapRange X tasklists ! i))) tasks
             \<and> ((\<exists>msg. ess ! i = map (\<lambda>task. \<lparr>TaskStruct = task, Error = msg\<rparr>)
                                     (snd (mapRange X tasklists ! i)))
                \<or> (\<exists>out. sendTaskList X g (snd (mapRange X tasklists ! i))
                             (fst (mapRange X tasklists ! i)) (ws ! i)
                           = Returns (None, out) (ws ! Suc i)
                         \<and> UnmarshalTaskErrors X out = (ess ! i, None))))
         \<and> r = (None, Some (noroute @ concat ess))
         \<and> noroute = map (\<lambda>t. \<lparr>TaskStruct = t, Error = ''No route for source!''\<rparr>)
                        (filter (\<lambda>t. srcRouter g (Source t) = None) tasks)"
proof -
  let ?groups = "mapRange X tasklists"
  have t: "tasklists = fst (handleTask_partition (srcRouter g) tasks [] [])"
    and n: "noroute = snd (handleTask_partition (srcRouter g) tasks [] [])"
    using assms(3) by simp_all
  have len: "length ?groups = length tasklists"
    using assms(4) by (metis size_mset)
  have sets: "set ?groups = set tasklists"
    using assms(4) by (metis set_mset_mset)
  have dist: "distinct (map fst tasklists)"
    unfolding t by (rule partition_distinct) simp
  from assms(1,2,3,5) have "handleTask_dispatch X g ?groups noroute w = Returns r w'"
    by (simp add: handleTask_def)
  from handleTask_dispatch_chain [OF this] obtain ess ws where
        l: "length ess = length ?groups" "length ws = Suc (length ?groups)"
    and e: "ws ! 0 = w" "ws ! length ?groups = w'"
    and s: "\<forall>i<length ?groups.
              handleTask_group X g (?groups ! i) (ws ! i) = Returns (ess ! i) (ws ! Suc i)"
    and r: "r = (None, Some (noroute @ concat ess))"
    by blast
  have grp: "snd (?groups ! i) = filter (\<lambda>t. srcRouter g (Source t) = Some (fst (?groups ! i))) tasks"
    if "i < length tasklists" for i
  proof -
    from that len sets have "?groups ! i \<in> set tasklists"
      by (metis nth_mem)
    then have "(fst (?groups ! i), snd (?groups ! i)) \<in> set tasklists" by simp
    with dist have "map_of tasklists (fst (?groups ! i)) = Some (snd (?groups ! i))"
      by (rule map_of_is_SomeI)
    then show ?thesis
      unfolding t by (simp add: partition_groups split: if_splits)
  qed
  have within: "(\<exists>msg. ess ! i = map (\<lambda>task. \<lparr>TaskStruct = task, Error = msg\<rparr>) (snd (?groups ! i)))
                \<or> (\<exists>out. sendTaskList X g (snd (?groups ! i)) (fst (?groups ! i)) (ws ! i)
                           = Returns (None, out) (ws ! Suc i)
                         \<and> UnmarshalTaskErrors X out = (ess ! i, None))"
    if "i < length tasklists" for i
  proof -
    from that s len have "handleTask_group X g (fst (?groups ! i), snd (?groups ! i)) (ws ! i)
        = Returns (ess ! i) (ws ! Suc i)"
      by simp
    from handleTask_group_cases [OF this] show ?thesis
      by blast
  qed
  have noroute: "noroute = map (\<lambda>t. \<lparr>TaskStruct = t, Error = ''No route for source!''\<rparr>)
                        (filter (\<lambda>t. srcRouter g (Source t) = None) tasks)"
    unfolding n by (simp add: partition_errors)
  from l e s r grp within noroute show ?thesis
    unfolding len
    by (intro exI [of _ ess] exI [of _ ws]) simp
qed

theorem handleTask_dispatch_order_witness:
  "authenticate example_extern example_gateway ''test'' ''secret''
     = (Some \<lparr>User_Name = ''test'', PasswordHash = ''hash-of-secret'', Id = 0\<rparr>, None)
   \<and> UnmarshalTasks example_extern ''[foo,blub]''
     = ([example_task ''a'' ''foo'', example_task ''c'' ''blub''], None)
   \<and> handleTask_partition (srcRouter example_gateway)
       [example_task ''a'' ''foo'', example_task ''c'' ''blub''] [] []
     = ([(0, [example_task ''a'' ''foo'']), (1, [example_task ''c'' ''blub''])], [])
   \<and> mset (mapRange example_extern
             [(0, [example_task ''a'' ''foo'']), (1, [example_task ''c'' ''blub''])])
     = mset [(0, [example_task ''a'' ''foo'']), (1, [example_task ''c'' ''blub''])]
   \<and> handleTask example_extern example_gateway ''[foo,blub]'' ''test'' ''secret'' example_world
     = Returns (None, Some
         [\<lparr>TaskStruct = example_task ''c'' ''blub'',
           Error = ''Error while sending task! Public Key not found''\<rparr>])
      \<lparr>entropy = [65, 66, 67, 68, 69, 70, 71, 72], clock = 0,
        sent = [\<lparr>req_uri = ''http://localhost:8080/task/'',
                 req_query = [(''KeyFingerprint'', ''foo''),
                              (''EncryptedKey'', ''BBBBBBBBBBBBBBBB''),
                              (''IV'', ''BBBBBBBBBBBBBBBB''),
                              (''Encrypted'', ''BBBBBBBBBBBBBBBBB'')]\<rparr>]\<rparr>"
proof -
  have 1: "authenticate example_extern example_gateway ''test'' ''secret''
     = (Some \<lparr>User_Name = ''test'', PasswordHash = ''hash-of-secret'', Id = 0\<rparr>, None)"
    by (simp add: authenticate_def example_extern_def example_gateway_def)
  have 2: "UnmarshalTasks example_extern ''[foo,blub]''
     = ([example_task ''a'' ''foo'', example_task ''c'' ''blub''], None)"
    by (simp add: example_extern_def)
  have 3: "handleTask_partition (srcRouter example_gateway)
       [example_task ''a'' ''foo'', example_task ''c'' ''blub''] [] []
     = ([(0, [example_task ''a'' ''foo'']), (1, [example_task ''c'' ''blub''])], [])"
    by (simp add: example_gateway_def example_task_def)
  have 4: "mset (mapRange example_extern
             [(0, [example_task ''a'' ''foo'']), (1, [example_task ''c'' ''blub''])])
     = mset [(0, [example_task ''a'' ''foo'']), (1, [example_task ''c'' ''blub''])]"
    by (simp add: example_extern_def)
  have 5: "handleTask example_extern example_gateway ''[foo,blub]'' ''test'' ''secret'' example_world
     = Returns (None, Some
         [\<lparr>TaskStruct = example_task ''c'' ''blub'',
           Error = ''Error while sending task! Public Key not found''\<rparr>])
      \<lparr>entropy = [65, 66, 67, 68, 69, 70, 71, 72], clock = 0,
        sent = [\<lparr>req_uri = ''http://localhost:8080/task/'',
                 req_query = [(''KeyFingerprint'', ''foo''),
                              (''EncryptedKey'', ''BBBBBBBBBBBBBBBB''),
                              (''IV'', ''BBBBBBBBBBBBBBBB''),
                              (''Encrypted'', ''BBBBBBBBBBBBBBBBB'')]\<rparr>]\<rparr>"
    by (simp add: handleTask_def authenticate_def handleTask_group_def sendTaskList_def example_extern_def example_gateway_def example_conf_def
          example_world_def example_task_def ReadFull_def createTicket_def encryptTicket_def
          encryptKey_def requestTaskList_def)
  from handleTask_dispatch_order [OF 1 2 3 4 5] 1 2 3 4 5 show ?thesis
    by (intro conjI)
qed

text \<open>
  C8 as stated fails: the groups are formed in the order Org1, Org2; \<open>range\<close> visits
  the entry of Org2 first, which Go allows; the request to Org2 goes out before the one
  to Org1, and the error of the second task of the batch precedes that of the first.
\<close>

theorem handleTask_dispatch_not_in_formation_order:
  "handleTask_partition (srcRouter (example_gateway\<lparr>keys := [''foo'' \<mapsto> (3233, 17), ''blub'' \<mapsto> (3233, 17)]\<rparr>))
       [example_task ''a'' ''foo'', example_task ''c'' ''blub''] [] []
     = ([(0, [example_task ''a'' ''foo'']), (1, [example_task ''c'' ''blub''])], [])
   \<and> mapRange (example_extern\<lparr>mapRange := rev,
          clientDo := \<lambda>history req. ([], Some ''connection refused'')\<rparr>) [(0, [example_task ''a'' ''foo'']), (1, [example_task ''c'' ''blub''])]
     = [(1, [example_task ''c'' ''blub'']), (0, [example_task ''a'' ''foo''])]
   \<and> handleTask (example_extern\<lparr>mapRange := rev,
          clientDo := \<lambda>history req. ([], Some ''connection refused'')\<rparr>) (example_gateway\<lparr>keys := [''foo'' \<mapsto> (3233, 17), ''blub'' \<mapsto> (3233, 17)]\<rparr>) ''[foo,blub]'' ''test'' ''secret'' example_world
     = Returns (None, Some
         [\<lparr>TaskStruct = example_task ''c'' ''blub'',
           Error = ''Error while sending task! connection refused''\<rparr>,
          \<lparr>TaskStruct = example_task ''a'' ''foo'',
           Error = ''Error while sending task! connection refused''\<rparr>])
      \<lparr>entropy = [65, 66, 67, 68, 69, 70, 71, 72], clock = 0,
        sent = [\<lparr>req_uri = ''http://localhost:8081/task/'',
                 req_query = [(''KeyFingerprint'', ''blub''),
                              (''EncryptedKey'', ''BBBBBBBBBBBBBBBB''),
                              (''IV'', ''BBBBBBBBBBBBBBBB''),
                              (''Encrypted'', ''BBBBBBBBBBBBBBBBB'')]\<rparr>,
                \<lparr>req_uri = ''http://localhost:8080/task/'',
                 req_query = [(''KeyFingerprint'', ''foo''),
                              (''EncryptedKey'', ''BBBBBBBBBBBBBBBB''),
                              (''IV'', ''BBBBBBBBBBBBBBBB''),
                              (''Encrypted'', ''BBBBBBBBBBBBBBBBB'')]\<rparr>]\<rparr>"
  by (simp add: handleTask_def authenticate_def handleTask_group_def sendTaskList_def example_extern_def example_gateway_def example_conf_def
          example_world_def example_task_def ReadFull_def createTicket_def encryptTicket_def
          encryptKey_def requestTaskList_def)

end
